theory Spec2Isabelle
  imports Complex_Main
begin

text \<open>
  The repository classifies unread mail with a language model and labels it. Two versions
  of its processing route are among the sources: the single-backend route
  (\<^verbatim>\<open>src/src/app/api/gmail/route.ts\<close>), which asks one backend with a bounded retry, and
  the two-backend route (the route document inside \<^verbatim>\<open>src/src/app/page.tsx\<close>), which asks a
  secondary backend, then the primary one, then falls back to a static default and keeps
  account of tokens and cost. Text extraction and the label manager are the same in both.
  The auth-status endpoint is the second document of
  \<^verbatim>\<open>src/src/app/api/auth/callback/route.ts\<close>.
\<close>

section \<open>JavaScript values and the platform the routes run on\<close>

text \<open>
  A value thrown in the routes is either an \<^verbatim>\<open>Error\<close> instance, which has a message, or
  something else; the handlers test \<^verbatim>\<open>error instanceof Error\<close>.
\<close>

datatype js_exn = JsError (message: string) | JsOther

text \<open>
  The routes use built-ins and one third-party routine that are not code of the
  repository. They are parameters of the model, collected in one record, and every
  general theorem below holds for any choice of them:
  \<^item> \<open>base64_utf8 d\<close> is \<^verbatim>\<open>Buffer.from(d, "base64").toString("utf-8")\<close>;
  \<^item> \<open>htmlToText h\<close> is the html-to-text call with the route's options;
  \<^item> \<open>collapse_ws t\<close> is \<^verbatim>\<open>t.replace(/\s+/g, " ")\<close>;
  \<^item> \<open>trim t\<close> is \<^verbatim>\<open>t.trim()\<close>;
  \<^item> \<open>JSON_parse t\<close> is \<^verbatim>\<open>JSON.parse(t)\<close>, \<open>None\<close> when it throws a SyntaxError.
\<close>

datatype json =
    JNull
  | JBool bool
  | JNumber string
  | JString string
  | JArray "json list"
  | JObject "(string \<times> json) list"

record runtime =
  base64_utf8 :: "string \<Rightarrow> string"
  htmlToText :: "string \<Rightarrow> string"
  collapse_ws :: "string \<Rightarrow> string"
  trim :: "string \<Rightarrow> string"
  JSON_parse :: "string \<Rightarrow> json option"

text \<open>JavaScript truthiness of an optional string: defined and not empty.\<close>

definition truthy :: "string option \<Rightarrow> bool" where
  "truthy v = (case v of None \<Rightarrow> False | Some s \<Rightarrow> s \<noteq> [])"

definition or_default :: "string option \<Rightarrow> string \<Rightarrow> string" where
  "or_default v d = (if truthy v then the v else d)"

section \<open>Text extraction (extractEmailBody)\<close>

text \<open>
  \<^verbatim>\<open>interface GmailPayload { mimeType?: string; body?: { data?: string }; parts?: GmailPayload[] }\<close>
\<close>

record payload_body =
  data :: "string option"

datatype GmailPayload =
  GmailPayload (mimeType: "string option") (body: "payload_body option")
    (parts: "GmailPayload list option")

text \<open>\<^verbatim>\<open>part.body?.data\<close>\<close>

definition body_data :: "GmailPayload \<Rightarrow> string option" where
  "body_data p = (case body p of None \<Rightarrow> None | Some b \<Rightarrow> data b)"

definition is_plain_part :: "GmailPayload \<Rightarrow> bool" where
  "is_plain_part part = (mimeType part = Some ''text/plain'' \<and> truthy (body_data part))"

definition is_html_part :: "GmailPayload \<Rightarrow> bool" where
  "is_html_part part = (mimeType part = Some ''text/html'' \<and> truthy (body_data part))"

definition decode_plain :: "runtime \<Rightarrow> GmailPayload \<Rightarrow> string" where
  "decode_plain rt part = base64_utf8 rt (or_default (body_data part) [])"

definition decode_html :: "runtime \<Rightarrow> GmailPayload \<Rightarrow> string" where
  "decode_html rt part =
     trim rt (collapse_ws rt (htmlToText rt (base64_utf8 rt (or_default (body_data part) []))))"

text \<open>The two \<^verbatim>\<open>for (const part of payload.parts)\<close> loops, each leaving at its first hit.\<close>

fun scan_plain :: "runtime \<Rightarrow> GmailPayload list \<Rightarrow> string option" where
  "scan_plain rt [] = None"
| "scan_plain rt (part # rest) =
     (if is_plain_part part then Some (decode_plain rt part) else scan_plain rt rest)"

fun scan_html :: "runtime \<Rightarrow> GmailPayload list \<Rightarrow> string option" where
  "scan_html rt [] = None"
| "scan_html rt (part # rest) =
     (if is_html_part part then Some (decode_html rt part) else scan_html rt rest)"

text \<open>The block under \<^verbatim>\<open>// Handle single part messages\<close>.\<close>

definition single_part :: "runtime \<Rightarrow> GmailPayload \<Rightarrow> string" where
  "single_part rt p =
     (if body p \<noteq> None \<and> truthy (body_data p) then
        (if mimeType p = Some ''text/plain'' then decode_plain rt p
         else if mimeType p = Some ''text/html'' then decode_html rt p
         else [])
      else [])"

definition extractEmailBody :: "runtime \<Rightarrow> GmailPayload option \<Rightarrow> string" where
  "extractEmailBody rt payload =
     (case payload of
        None \<Rightarrow> []
      | Some p \<Rightarrow>
          (case parts p of
             None \<Rightarrow> single_part rt p
           | Some ps \<Rightarrow>
               (case scan_plain rt ps of
                  Some text \<Rightarrow> text
                | None \<Rightarrow>
                    (case scan_html rt ps of
                       Some text \<Rightarrow> text
                     | None \<Rightarrow> single_part rt p))))"

section \<open>Asynchronous calls: state and exceptions\<close>

text \<open>
  An awaited call changes the outside world (the mail account, the classification backends)
  and either returns a value or throws. A computation is a function from the state of the
  world to an outcome and the next state; \<open>Inl\<close> is a thrown value.
\<close>

type_synonym ('a, 's) io = "'s \<Rightarrow> (js_exn + 'a) \<times> 's"

definition return_io :: "'a \<Rightarrow> ('a, 's) io" where
  "return_io a s = (Inr a, s)"

definition throw_io :: "js_exn \<Rightarrow> ('a, 's) io" where
  "throw_io e s = (Inl e, s)"

definition bind_io :: "('a, 's) io \<Rightarrow> ('a \<Rightarrow> ('b, 's) io) \<Rightarrow> ('b, 's) io" where
  "bind_io m f s = (case m s of (Inl e, s') \<Rightarrow> (Inl e, s') | (Inr a, s') \<Rightarrow> f a s')"

text \<open>\<^verbatim>\<open>try { m } catch (error) { h error }\<close>\<close>

definition catch_io :: "('a, 's) io \<Rightarrow> (js_exn \<Rightarrow> ('a, 's) io) \<Rightarrow> ('a, 's) io" where
  "catch_io m h s = (case m s of (Inl e, s') \<Rightarrow> h e s' | (Inr a, s') \<Rightarrow> (Inr a, s'))"

section \<open>The mail provider and the classification backends\<close>

text \<open>What the routes read from the provider's replies; optional fields are options.\<close>

type_synonym message_ref = "string option"

record header =
  header_name :: "string option"
  header_value :: "string option"

record message_part =
  headers :: "header list option"
  content :: GmailPayload

record label =
  label_name :: "string option"
  label_id :: "string option"

text \<open>
  The instruction sent to a backend. Its fixed wording is not reproduced; it embeds the
  category list and the three fields of the message, the body cut to 500 characters.
\<close>

record prompt =
  prompt_categories :: "string list"
  prompt_from :: string
  prompt_subject :: string
  prompt_body :: string

definition build_prompt :: "string list \<Rightarrow> string \<Rightarrow> string \<Rightarrow> string \<Rightarrow> prompt" where
  "build_prompt cats subj sender body_text =
     \<lparr> prompt_categories = cats, prompt_from = sender, prompt_subject = subj,
       prompt_body = take 500 body_text @ (if length body_text > 500 then ''...'' else []) \<rparr>"

record content_block =
  block_type :: string
  block_text :: string

record usage =
  input_tokens :: nat
  output_tokens :: nat

record completion =
  completion_content :: "content_block list"
  completion_usage :: usage

record usageMetadata =
  totalTokenCount :: "nat option"

record generated =
  generated_text :: "string option"
  generated_usage :: "usageMetadata option"

text \<open>
  The clients the routes call: \<^verbatim>\<open>gmail.users.*\<close>, \<^verbatim>\<open>anthropic.messages.create\<close>,
  \<^verbatim>\<open>genAI.models.generateContent\<close> and the timer. Their behaviour is a parameter.
\<close>

record 's services =
  getProfile :: "(string option, 's) io"
  messages_list :: "string \<Rightarrow> nat \<Rightarrow> (message_ref list option, 's) io"
  messages_get :: "message_ref \<Rightarrow> (message_part option, 's) io"
  messages_modify :: "message_ref \<Rightarrow> string option list \<Rightarrow> string list \<Rightarrow> (unit, 's) io"
  labels_list :: "(label list option, 's) io"
  labels_create :: "string \<Rightarrow> (string option, 's) io"
  anthropic_create :: "prompt \<Rightarrow> (completion, 's) io"
  generateContent :: "prompt \<Rightarrow> (generated, 's) io"
  setTimeout :: "nat \<Rightarrow> 's \<Rightarrow> 's"

section \<open>Results\<close>

text \<open>
  \<^verbatim>\<open>interface EmailData\<close> of the two-backend route. The single-backend route has the same
  interface without model, tokens and cost; there these three are always absent.
\<close>

record EmailData =
  email_id :: message_ref
  subject :: string
  category :: string
  labeled :: bool
  model :: "string option"
  tokens :: "nat option"
  cost :: "real option"
  error :: "string option"

text \<open>
  \<^verbatim>\<open>interface ClassificationResult\<close>. The cost is the real number the pricing formula
  denotes; the rounding of JavaScript's doubles is not modelled.
\<close>

record ClassificationResult =
  cr_category :: string
  cr_model :: string
  cr_tokens :: nat
  cr_cost :: real

text \<open>The object both routes push when a message fails.\<close>

definition error_result :: "message_ref \<Rightarrow> js_exn \<Rightarrow> EmailData" where
  "error_result email err =
     \<lparr> email_id = email, subject = ''Error processing email'', category = ''Error'',
       labeled = False, model = None, tokens = None, cost = None,
       error = Some (case err of JsError m \<Rightarrow> m | JsOther \<Rightarrow> ''Unknown error'') \<rparr>"

section \<open>Label manager (ensureLabelExists), the same in both routes\<close>

definition find_label :: "label list option \<Rightarrow> string \<Rightarrow> label option" where
  "find_label ls labelName =
     (case ls of None \<Rightarrow> None | Some xs \<Rightarrow> find (\<lambda>l. label_name l = Some labelName) xs)"

definition ensureLabelExists :: "'s services \<Rightarrow> string \<Rightarrow> (string option, 's) io" where
  "ensureLabelExists gmail labelName =
     catch_io
       (bind_io (labels_list gmail) (\<lambda>ls.
          (case find_label ls labelName of
             Some existingLabel \<Rightarrow>
               if truthy (label_id existingLabel) then return_io (label_id existingLabel)
               else labels_create gmail labelName
           | None \<Rightarrow> labels_create gmail labelName)))
       (\<lambda>err. throw_io err)"

section \<open>Classifier of the two-backend route\<close>

text \<open>
  \<^verbatim>\<open>JSON.parse(content[0].type === "text" ? content[0].text : "").category\<close>: reading
  \<^verbatim>\<open>content[0].type\<close> of an empty list and \<^verbatim>\<open>.category\<close> of \<^verbatim>\<open>null\<close> throw a TypeError, a
  text that is not JSON a SyntaxError; a later duplicate key wins; any value that is not an
  object with that key gives \<^verbatim>\<open>undefined\<close> (\<open>None\<close>).
\<close>

definition claude_category :: "runtime \<Rightarrow> completion \<Rightarrow> js_exn + json option" where
  "claude_category rt c =
     (case completion_content c of
        [] \<Rightarrow> Inl (JsError ''TypeError'')
      | b # _ \<Rightarrow>
          (case JSON_parse rt (if block_type b = ''text'' then block_text b else []) of
             None \<Rightarrow> Inl (JsError ''SyntaxError'')
           | Some JNull \<Rightarrow> Inl (JsError ''TypeError'')
           | Some (JObject members) \<Rightarrow> Inr (map_of (rev members) ''category'')
           | Some _ \<Rightarrow> Inr None))"

text \<open>
  \<^verbatim>\<open>v && validCategories.includes(v)\<close> for a parsed value: only a non-empty string can be
  equal to an element of the string list.
\<close>

definition valid_json_category :: "string list \<Rightarrow> json option \<Rightarrow> string option" where
  "valid_json_category cats v =
     (case v of
        Some (JString c) \<Rightarrow> if c \<noteq> [] \<and> c \<in> set cats then Some c else None
      | _ \<Rightarrow> None)"

text \<open>The first \<^verbatim>\<open>try\<close> block; \<open>None\<close> when control leaves it without returning.\<close>

definition claude_tier ::
  "'s services \<Rightarrow> runtime \<Rightarrow> string list \<Rightarrow> prompt \<Rightarrow> (ClassificationResult option, 's) io" where
  "claude_tier api rt cats p =
     bind_io (anthropic_create api p) (\<lambda>c.
       (case claude_category rt c of
          Inl err \<Rightarrow> throw_io err
        | Inr claudeCategory \<Rightarrow>
            (case valid_json_category cats claudeCategory of
               Some cat \<Rightarrow>
                 return_io (Some
                   \<lparr> cr_category = cat, cr_model = ''anthropic'',
                     cr_tokens = input_tokens (completion_usage c) + output_tokens (completion_usage c),
                     cr_cost = (real (input_tokens (completion_usage c)) * 0.8) / 1000000
                             + (real (output_tokens (completion_usage c)) * 4) / 1000000 \<rparr>)
             | None \<Rightarrow> return_io None)))"

text \<open>\<^verbatim>\<open>result.text?.trim() || ""\<close>\<close>

definition gemini_category :: "runtime \<Rightarrow> generated \<Rightarrow> string" where
  "gemini_category rt r = (case generated_text r of None \<Rightarrow> [] | Some t \<Rightarrow> trim rt t)"

text \<open>\<^verbatim>\<open>result.usageMetadata?.totalTokenCount || 0\<close>\<close>

definition gemini_tokens :: "generated \<Rightarrow> nat" where
  "gemini_tokens r =
     (case generated_usage r of
        None \<Rightarrow> 0
      | Some u \<Rightarrow> (case totalTokenCount u of None \<Rightarrow> 0 | Some n \<Rightarrow> n))"

text \<open>The second \<^verbatim>\<open>try\<close> block.\<close>

definition gemini_tier ::
  "'s services \<Rightarrow> runtime \<Rightarrow> string list \<Rightarrow> prompt \<Rightarrow> (ClassificationResult option, 's) io" where
  "gemini_tier api rt cats p =
     bind_io (generateContent api p) (\<lambda>r.
       (let cat = gemini_category rt r in
        if cat \<noteq> [] \<and> cat \<in> set cats then
          return_io (Some
            \<lparr> cr_category = cat, cr_model = ''gemini'', cr_tokens = gemini_tokens r,
              cr_cost = real (gemini_tokens r) * 1.25 \<rparr>)
        else return_io None))"

definition fallback :: ClassificationResult where
  "fallback = \<lparr> cr_category = ''Other'', cr_model = ''fallback'', cr_tokens = 0, cr_cost = 0 \<rparr>"

definition classifyEmail ::
  "'s services \<Rightarrow> runtime \<Rightarrow> string list \<Rightarrow> string \<Rightarrow> string \<Rightarrow> string
     \<Rightarrow> (ClassificationResult, 's) io" where
  "classifyEmail api rt cats subj sender body_text =
     (let p = build_prompt cats subj sender body_text in
      bind_io (catch_io (claude_tier api rt cats p) (\<lambda>err. return_io None)) (\<lambda>r1.
        (case r1 of
           Some res \<Rightarrow> return_io res
         | None \<Rightarrow>
             bind_io (catch_io (gemini_tier api rt cats p) (\<lambda>err. return_io None)) (\<lambda>r2.
               (case r2 of
                  Some res \<Rightarrow> return_io res
                | None \<Rightarrow> return_io fallback)))))"

section \<open>Inbox processor of the two-backend route\<close>

text \<open>\<^verbatim>\<open>headers?.find((h) => h.name === n)?.value\<close>\<close>

definition find_header :: "header list option \<Rightarrow> string \<Rightarrow> string option" where
  "find_header hs n =
     (case hs of
        None \<Rightarrow> None
      | Some xs \<Rightarrow>
          (case find (\<lambda>h. header_name h = Some n) xs of
             None \<Rightarrow> None
           | Some h \<Rightarrow> header_value h))"

text \<open>The \<^verbatim>\<open>try\<close> block of processSingleEmail.\<close>

definition processSingleEmail_try ::
  "'s services \<Rightarrow> runtime \<Rightarrow> string list \<Rightarrow> message_ref \<Rightarrow> (EmailData, 's) io" where
  "processSingleEmail_try gmail rt cats email =
     bind_io (messages_get gmail email) (\<lambda>details.
       (let hs = (case details of None \<Rightarrow> None | Some mp \<Rightarrow> headers mp);
            subj = or_default (find_header hs ''Subject'') ''No Subject'';
            sender = or_default (find_header hs ''From'') ''Unknown Sender'';
            body_text = extractEmailBody rt (map_option content details)
        in
        bind_io (classifyEmail gmail rt cats subj sender body_text) (\<lambda>classificationResult.
        bind_io (ensureLabelExists gmail (cr_category classificationResult)) (\<lambda>labelId.
        bind_io (messages_modify gmail email [labelId] [''UNREAD'']) (\<lambda>_.
        return_io
          \<lparr> email_id = email, subject = subj,
            category = cr_category classificationResult, labeled = True,
            model = Some (cr_model classificationResult),
            tokens = Some (cr_tokens classificationResult),
            cost = Some (cr_cost classificationResult), error = None \<rparr>)))))"

definition processSingleEmail ::
  "'s services \<Rightarrow> runtime \<Rightarrow> string list \<Rightarrow> message_ref \<Rightarrow> (EmailData, 's) io" where
  "processSingleEmail gmail rt cats email =
     catch_io (processSingleEmail_try gmail rt cats email)
       (\<lambda>err. return_io (error_result email err))"

text \<open>The loop of getCustomLabelNames keeps the names that are categories, in order.\<close>

definition getCustomLabelNames :: "'s services \<Rightarrow> string list \<Rightarrow> (string list, 's) io" where
  "getCustomLabelNames gmail cats =
     catch_io
       (bind_io (labels_list gmail) (\<lambda>ls.
          (let allLabels = (case ls of None \<Rightarrow> [] | Some xs \<Rightarrow> xs) in
           return_io
             (map (\<lambda>l. or_default (label_name l) [])
                (filter (\<lambda>l. truthy (label_name l) \<and> or_default (label_name l) [] \<in> set cats)
                   allLabels)))))
       (\<lambda>err. return_io [])"

fun join :: "string \<Rightarrow> string list \<Rightarrow> string" where
  "join sep [] = []"
| "join sep [x] = x"
| "join sep (x # y # ys) = x @ sep @ join sep (y # ys)"

definition build_query :: "string list \<Rightarrow> string" where
  "build_query customLabelNames =
     ''is:unread'' @
     (if length customLabelNames > 0 then
        '' '' @ join '' '' (map (\<lambda>n. ''-label:'' @ [CHR 0x22] @ n @ [CHR 0x22]) customLabelNames)
      else [])"

text \<open>
  The \<^verbatim>\<open>for (const email of emails)\<close> loop with its own \<^verbatim>\<open>try\<close>/\<^verbatim>\<open>catch\<close>; \<open>results\<close> is the
  array pushed to.
\<close>

fun process_emails ::
  "'s services \<Rightarrow> runtime \<Rightarrow> string list \<Rightarrow> message_ref list \<Rightarrow> EmailData list
     \<Rightarrow> (EmailData list, 's) io" where
  "process_emails gmail rt cats [] results = return_io results"
| "process_emails gmail rt cats (email # rest) results =
     bind_io
       (catch_io (processSingleEmail gmail rt cats email)
          (\<lambda>err. return_io (error_result email err)))
       (\<lambda>result. process_emails gmail rt cats rest (results @ [result]))"

text \<open>The body of the request, and what \<^verbatim>\<open>NextResponse.json\<close> is given.\<close>

record request_body =
  accessToken :: "string option"
  emailId :: "string option"

datatype response =
    Results (response_results: "EmailData list") (response_userEmail: "string option")
  | Failure (failure_text: string) (failure_status: nat)

definition POST_try ::
  "'s services \<Rightarrow> runtime \<Rightarrow> string list \<Rightarrow> nat \<Rightarrow> js_exn + request_body \<Rightarrow> (response, 's) io" where
  "POST_try gmail rt cats max_emails request =
     (case request of
        Inl err \<Rightarrow> throw_io err
      | Inr req \<Rightarrow>
          if \<not> truthy (accessToken req) then return_io (Failure ''Access token required'' 400)
          else
            bind_io
              (catch_io (bind_io (getProfile gmail) (\<lambda>a. return_io (or_default a [])))
                 (\<lambda>err. return_io [])) (\<lambda>addr.
            bind_io (getCustomLabelNames gmail cats) (\<lambda>customLabelNames.
            bind_io (messages_list gmail (build_query customLabelNames) max_emails) (\<lambda>ms.
              (let emails = (case ms of None \<Rightarrow> [] | Some xs \<Rightarrow> xs) in
               if truthy (emailId req) then
                 (case find (\<lambda>email. email = emailId req) emails of
                    None \<Rightarrow> return_io (Failure ''Email not found or already processed'' 404)
                  | Some targetEmail \<Rightarrow>
                      bind_io (processSingleEmail gmail rt cats targetEmail) (\<lambda>result.
                        return_io (Results [result] (Some addr))))
               else
                 bind_io (process_emails gmail rt cats emails []) (\<lambda>rs.
                   return_io (Results rs (Some addr))))))))"

definition POST ::
  "'s services \<Rightarrow> runtime \<Rightarrow> string list \<Rightarrow> nat \<Rightarrow> js_exn + request_body \<Rightarrow> (response, 's) io" where
  "POST gmail rt cats max_emails request =
     catch_io (POST_try gmail rt cats max_emails request)
       (\<lambda>err. return_io (Failure ''Failed to process emails'' 500))"

section \<open>The single-backend route\<close>

definition maxRetries :: nat where
  "maxRetries = 2"

text \<open>
  The \<^verbatim>\<open>while (retries <= maxRetries)\<close> loop of its classifyEmail. An invalid reply goes
  straight to the next turn; a thrown call waits \<^verbatim>\<open>setTimeout(resolve, 1000)\<close> first.
\<close>

function classify_loop ::
  "'s services \<Rightarrow> runtime \<Rightarrow> string list \<Rightarrow> prompt \<Rightarrow> nat \<Rightarrow> (string, 's) io" where
  "classify_loop api rt cats p retries s =
     (if retries \<le> maxRetries then
        (case generateContent api p s of
           (Inr r, s1) \<Rightarrow>
             (let cat = gemini_category rt r in
              if cat \<noteq> [] \<and> cat \<in> set cats then (Inr cat, s1)
              else if Suc retries > maxRetries then (Inr ''Personal'', s1)
              else classify_loop api rt cats p (Suc retries) s1)
         | (Inl err, s1) \<Rightarrow>
             if Suc retries > maxRetries then (Inr ''Personal'', s1)
             else classify_loop api rt cats p (Suc retries) (setTimeout api 1000 s1))
      else (Inr ''Personal'', s))"
  by pat_completeness auto
termination
  by (relation "measure (\<lambda>(api, rt, cats, p, retries, s). Suc maxRetries - retries)") auto

definition classifyEmail_single ::
  "'s services \<Rightarrow> runtime \<Rightarrow> string list \<Rightarrow> string \<Rightarrow> string \<Rightarrow> string \<Rightarrow> (string, 's) io" where
  "classifyEmail_single api rt cats subj sender body_text =
     classify_loop api rt cats (build_prompt cats subj sender body_text) 0"

text \<open>The \<^verbatim>\<open>try\<close> block inside the loop of its POST.\<close>

definition process_single_try ::
  "'s services \<Rightarrow> runtime \<Rightarrow> string list \<Rightarrow> message_ref \<Rightarrow> (EmailData, 's) io" where
  "process_single_try gmail rt cats email =
     bind_io (messages_get gmail email) (\<lambda>details.
       (let hs = (case details of None \<Rightarrow> None | Some mp \<Rightarrow> headers mp);
            subj = or_default (find_header hs ''Subject'') ''No Subject'';
            sender = or_default (find_header hs ''From'') ''Unknown Sender'';
            body_text = extractEmailBody rt (map_option content details)
        in
        bind_io (classifyEmail_single gmail rt cats subj sender body_text) (\<lambda>cat.
        bind_io (ensureLabelExists gmail cat) (\<lambda>labelId.
        bind_io (messages_modify gmail email [labelId] [''UNREAD'']) (\<lambda>_.
        return_io
          \<lparr> email_id = email, subject = subj, category = cat, labeled = True,
            model = None, tokens = None, cost = None, error = None \<rparr>)))))"

fun process_emails_single ::
  "'s services \<Rightarrow> runtime \<Rightarrow> string list \<Rightarrow> message_ref list \<Rightarrow> EmailData list
     \<Rightarrow> (EmailData list, 's) io" where
  "process_emails_single gmail rt cats [] results = return_io results"
| "process_emails_single gmail rt cats (email # rest) results =
     bind_io
       (catch_io (process_single_try gmail rt cats email)
          (\<lambda>err. return_io (error_result email err)))
       (\<lambda>result. process_emails_single gmail rt cats rest (results @ [result]))"

definition POST_single ::
  "'s services \<Rightarrow> runtime \<Rightarrow> string list \<Rightarrow> js_exn + request_body \<Rightarrow> (response, 's) io" where
  "POST_single gmail rt cats request =
     catch_io
       (case request of
          Inl err \<Rightarrow> throw_io err
        | Inr req \<Rightarrow>
            if \<not> truthy (accessToken req) then return_io (Failure ''Access token required'' 400)
            else
              bind_io (messages_list gmail ''is:unread'' 2) (\<lambda>ms.
                (let emails = (case ms of None \<Rightarrow> [] | Some xs \<Rightarrow> xs) in
                 bind_io (process_emails_single gmail rt cats emails []) (\<lambda>rs.
                   return_io (Results rs None)))))
       (\<lambda>err. return_io (Failure ''Failed to process emails'' 500))"

section \<open>The auth-status endpoint\<close>

text \<open>The cookies of a request, by name, and the two shapes of the JSON reply.\<close>

type_synonym cookies = "string \<rightharpoonup> string"

record auth_status =
  authenticated :: bool
  status_accessToken :: "string option"

definition GET_check :: "cookies \<Rightarrow> auth_status" where
  "GET_check cs =
     (let tok = cs ''access_token'' in
      if \<not> truthy tok then \<lparr> authenticated = False, status_accessToken = None \<rparr>
      else \<lparr> authenticated = True, status_accessToken = tok \<rparr>)"

section \<open>A reference platform\<close>

text \<open>
  Models of the built-ins on ASCII text, used only where a definition is run on a
  concrete input. White space is the ASCII white space of \<^verbatim>\<open>\s\<close> and \<^verbatim>\<open>trim\<close>.
\<close>

definition js_space :: "char \<Rightarrow> bool" where
  "js_space c = ((of_char c :: nat) \<in> {9, 10, 11, 12, 13, 32})"

definition ref_trim :: "string \<Rightarrow> string" where
  "ref_trim t = rev (dropWhile js_space (rev (dropWhile js_space t)))"

function ref_collapse_ws :: "string \<Rightarrow> string" where
  "ref_collapse_ws [] = []"
| "ref_collapse_ws (c # cs) =
     (if js_space c then CHR '' '' # ref_collapse_ws (dropWhile js_space cs)
      else c # ref_collapse_ws cs)"
  by pat_completeness auto
termination
  by (relation "measure length") (auto simp: length_dropWhile_le less_Suc_eq_le)

text \<open>
  A stand-in for the third-party html-to-text routine: it drops what stands between
  \<^verbatim>\<open><\<close> and \<^verbatim>\<open>>\<close>. No run below reaches it.
\<close>

fun strip_tags :: "bool \<Rightarrow> string \<Rightarrow> string" where
  "strip_tags inside [] = []"
| "strip_tags inside (c # cs) =
     (if c = CHR ''<'' then strip_tags True cs
      else if c = CHR ''>'' \<and> inside then strip_tags False cs
      else if inside then strip_tags inside cs
      else c # strip_tags inside cs)"

text \<open>
  Base64 in the standard and the URL-safe alphabet; characters outside the alphabet are
  skipped and decoding ends at the first padding sign. Each decoded byte is one character.
\<close>

definition b64_digit :: "char \<Rightarrow> nat option" where
  "b64_digit c =
     (let n = (of_char c :: nat) in
      if 65 \<le> n \<and> n \<le> 90 then Some (n - 65)
      else if 97 \<le> n \<and> n \<le> 122 then Some (n - 71)
      else if 48 \<le> n \<and> n \<le> 57 then Some (n + 4)
      else if n = 43 \<or> n = 45 then Some 62
      else if n = 47 \<or> n = 95 then Some 63
      else None)"

fun b64_bytes :: "nat list \<Rightarrow> nat list" where
  "b64_bytes (a # b # c # d # rest) =
     (a * 4 + b div 16) # ((b mod 16) * 16 + c div 4) # ((c mod 4) * 64 + d) # b64_bytes rest"
| "b64_bytes [a, b, c] = [a * 4 + b div 16, (b mod 16) * 16 + c div 4]"
| "b64_bytes [a, b] = [a * 4 + b div 16]"
| "b64_bytes _ = []"

definition ref_base64_utf8 :: "string \<Rightarrow> string" where
  "ref_base64_utf8 d =
     map char_of (b64_bytes (List.map_filter b64_digit (takeWhile (\<lambda>c. c \<noteq> CHR ''='') d)))"

text \<open>
  \<^verbatim>\<open>JSON.parse\<close> as a recursive-descent parser of the JSON grammar. A number keeps its
  lexeme. An escape \<^verbatim>\<open>\uXXXX\<close> is read for code points below 128 only; a text with a larger
  one is outside this model and is reported as not parsed. The fuel of the mutually
  recursive functions is twice the length of the text, more than its nesting.
\<close>

definition json_space :: "char \<Rightarrow> bool" where
  "json_space c = ((of_char c :: nat) \<in> {9, 10, 13, 32})"

definition is_digit :: "char \<Rightarrow> bool" where
  "is_digit c = (48 \<le> (of_char c :: nat) \<and> (of_char c :: nat) \<le> 57)"

definition hex_digit :: "char \<Rightarrow> nat option" where
  "hex_digit c =
     (let n = (of_char c :: nat) in
      if 48 \<le> n \<and> n \<le> 57 then Some (n - 48)
      else if 65 \<le> n \<and> n \<le> 70 then Some (n - 55)
      else if 97 \<le> n \<and> n \<le> 102 then Some (n - 87)
      else None)"

definition hex4 :: "char \<Rightarrow> char \<Rightarrow> char \<Rightarrow> char \<Rightarrow> nat option" where
  "hex4 a b c d =
     (case (hex_digit a, hex_digit b, hex_digit c, hex_digit d) of
        (Some w, Some x, Some y, Some z) \<Rightarrow> Some (((w * 16 + x) * 16 + y) * 16 + z)
      | _ \<Rightarrow> None)"

definition simple_escape :: "char \<Rightarrow> char option" where
  "simple_escape e =
     (if e = CHR 0x22 then Some (CHR 0x22)
      else if e = CHR 0x5C then Some (CHR 0x5C)
      else if e = CHR ''/'' then Some (CHR ''/'')
      else if e = CHR ''b'' then Some (CHR 0x08)
      else if e = CHR ''f'' then Some (CHR 0x0C)
      else if e = CHR ''n'' then Some (CHR 0x0A)
      else if e = CHR ''r'' then Some (CHR 0x0D)
      else if e = CHR ''t'' then Some (CHR 0x09)
      else None)"

fun parse_string :: "string \<Rightarrow> (string \<times> string) option" where
  "parse_string [] = None"
| "parse_string [c] = (if c = CHR 0x22 then Some ([], []) else None)"
| "parse_string (c # e # cs) =
     (if c = CHR 0x22 then Some ([], e # cs)
      else if c = CHR 0x5C then
        (if e = CHR ''u'' then
           (case cs of
              h1 # h2 # h3 # h4 # rest \<Rightarrow>
                (case hex4 h1 h2 h3 h4 of
                   None \<Rightarrow> None
                 | Some n \<Rightarrow>
                     if n < 128 then
                       (case parse_string rest of
                          None \<Rightarrow> None
                        | Some (str, r) \<Rightarrow> Some (char_of n # str, r))
                     else None)
            | _ \<Rightarrow> None)
         else
           (case simple_escape e of
              None \<Rightarrow> None
            | Some x \<Rightarrow>
                (case parse_string cs of
                   None \<Rightarrow> None
                 | Some (str, r) \<Rightarrow> Some (x # str, r))))
      else if (of_char c :: nat) < 32 then None
      else
        (case parse_string (e # cs) of
           None \<Rightarrow> None
         | Some (str, r) \<Rightarrow> Some (c # str, r)))"

definition digits1 :: "string \<Rightarrow> (string \<times> string) option" where
  "digits1 cs = (let ds = takeWhile is_digit cs in
                 if ds = [] then None else Some (ds, dropWhile is_digit cs))"

definition parse_number :: "string \<Rightarrow> (string \<times> string) option" where
  "parse_number cs =
     (let (sign, cs1) = (case cs of c # r \<Rightarrow> if c = CHR ''-'' then ([c], r) else ([], cs) | [] \<Rightarrow> ([], cs)) in
      (case (case cs1 of
               c # r \<Rightarrow> if c = CHR ''0'' then Some ([c], r) else digits1 cs1
             | [] \<Rightarrow> None) of
         None \<Rightarrow> None
       | Some (ip, cs2) \<Rightarrow>
           (case (case cs2 of
                    c # r \<Rightarrow>
                      if c = CHR ''.'' then
                        (case digits1 r of None \<Rightarrow> None | Some (ds, r') \<Rightarrow> Some (c # ds, r'))
                      else Some ([], cs2)
                  | [] \<Rightarrow> Some ([], cs2)) of
              None \<Rightarrow> None
            | Some (fp, cs3) \<Rightarrow>
                (case (case cs3 of
                         c # r \<Rightarrow>
                           if c = CHR ''e'' \<or> c = CHR ''E'' then
                             (let (sg, r1) =
                                (case r of
                                   x # r' \<Rightarrow> if x = CHR ''+'' \<or> x = CHR ''-'' then ([x], r') else ([], r)
                                 | [] \<Rightarrow> ([], r)) in
                              (case digits1 r1 of
                                 None \<Rightarrow> None
                               | Some (ds, r2) \<Rightarrow> Some (c # sg @ ds, r2)))
                           else Some ([], cs3)
                       | [] \<Rightarrow> Some ([], cs3)) of
                   None \<Rightarrow> None
                 | Some (ep, cs4) \<Rightarrow> Some (sign @ ip @ fp @ ep, cs4)))))"

definition starts_with :: "string \<Rightarrow> string \<Rightarrow> bool" where
  "starts_with w cs = (take (length w) cs = w)"

fun parse_value :: "nat \<Rightarrow> string \<Rightarrow> (json \<times> string) option"
  and parse_elements :: "nat \<Rightarrow> string \<Rightarrow> (json list \<times> string) option"
  and parse_members :: "nat \<Rightarrow> string \<Rightarrow> ((string \<times> json) list \<times> string) option" where
  "parse_value 0 cs = None"
| "parse_value (Suc n) cs =
     (case dropWhile json_space cs of
        [] \<Rightarrow> None
      | c # r \<Rightarrow>
          if c = CHR ''{'' then
            (case dropWhile json_space r of
               [] \<Rightarrow> None
             | d # r' \<Rightarrow>
                 if d = CHR ''}'' then Some (JObject [], r')
                 else (case parse_members n r of
                         None \<Rightarrow> None
                       | Some (ms, r'') \<Rightarrow> Some (JObject ms, r'')))
          else if c = CHR ''['' then
            (case dropWhile json_space r of
               [] \<Rightarrow> None
             | d # r' \<Rightarrow>
                 if d = CHR '']'' then Some (JArray [], r')
                 else (case parse_elements n r of
                         None \<Rightarrow> None
                       | Some (vs, r'') \<Rightarrow> Some (JArray vs, r'')))
          else if c = CHR 0x22 then
            (case parse_string r of None \<Rightarrow> None | Some (str, r') \<Rightarrow> Some (JString str, r'))
          else if starts_with ''true'' (c # r) then Some (JBool True, drop 4 (c # r))
          else if starts_with ''false'' (c # r) then Some (JBool False, drop 5 (c # r))
          else if starts_with ''null'' (c # r) then Some (JNull, drop 4 (c # r))
          else
            (case parse_number (c # r) of
               None \<Rightarrow> None
             | Some (lexeme, r') \<Rightarrow> Some (JNumber lexeme, r')))"
| "parse_elements 0 cs = None"
| "parse_elements (Suc n) cs =
     (case parse_value n cs of
        None \<Rightarrow> None
      | Some (v, r) \<Rightarrow>
          (case dropWhile json_space r of
             [] \<Rightarrow> None
           | c # r' \<Rightarrow>
               if c = CHR '','' then
                 (case parse_elements n r' of
                    None \<Rightarrow> None
                  | Some (vs, r'') \<Rightarrow> Some (v # vs, r''))
               else if c = CHR '']'' then Some ([v], r')
               else None))"
| "parse_members 0 cs = None"
| "parse_members (Suc n) cs =
     (case dropWhile json_space cs of
        [] \<Rightarrow> None
      | q # r \<Rightarrow>
          if q \<noteq> CHR 0x22 then None
          else
            (case parse_string r of
               None \<Rightarrow> None
             | Some (k, r1) \<Rightarrow>
                 (case dropWhile json_space r1 of
                    [] \<Rightarrow> None
                  | c # r2 \<Rightarrow>
                      if c \<noteq> CHR '':'' then None
                      else
                        (case parse_value n r2 of
                           None \<Rightarrow> None
                         | Some (v, r3) \<Rightarrow>
                             (case dropWhile json_space r3 of
                                [] \<Rightarrow> None
                              | d # r4 \<Rightarrow>
                                  if d = CHR '','' then
                                    (case parse_members n r4 of
                                       None \<Rightarrow> None
                                     | Some (ms, r5) \<Rightarrow> Some ((k, v) # ms, r5))
                                  else if d = CHR ''}'' then Some ([(k, v)], r4)
                                  else None)))))"

definition ref_JSON_parse :: "string \<Rightarrow> json option" where
  "ref_JSON_parse t =
     (case parse_value (2 * length t + 2) t of
        None \<Rightarrow> None
      | Some (v, rest) \<Rightarrow> if dropWhile json_space rest = [] then Some v else None)"

definition ref_runtime :: runtime where
  "ref_runtime =
     \<lparr> base64_utf8 = ref_base64_utf8, htmlToText = strip_tags False,
       collapse_ws = ref_collapse_ws, trim = ref_trim, JSON_parse = ref_JSON_parse \<rparr>"

text \<open>
  Modelled from the spec: the constant \<^verbatim>\<open>validCategories\<close> is imported by the routes from
  \<^verbatim>\<open>@/app/utils/constants\<close>, which is not among the sources. The list is the enumeration
  of the spec, the same sixteen names the prompt of both routes explains. The routes above
  take the list as a parameter.
\<close>

definition validCategories :: "string list" where
  "validCategories =
     [''Important'', ''Urgent'', ''Work'', ''Personal'', ''Finance'', ''Sales'', ''Promotions'',
      ''Newsletter'', ''Social'', ''Shopping'', ''Entertainment'', ''Health'', ''Education'',
      ''Automated'', ''Spamming'', ''Other'']"

text \<open>
  Modelled from the spec: the constant \<^verbatim>\<open>MAX_EMAILS\<close> comes from the same missing file; the
  spec gives the batch ceiling as a ``fixed maximum (10)''. The two-backend route above takes
  it as a parameter.
\<close>

definition MAX_EMAILS :: nat where
  "MAX_EMAILS = 10"

section \<open>Observing the calls\<close>

text \<open>
  To count calls and waits, any services can be wrapped so that each call appends to a log
  whether it returned or threw, and each timer how long it waits.
\<close>

datatype op =
    OpGetProfile | OpMessagesList | OpMessagesGet | OpMessagesModify
  | OpLabelsList | OpLabelsCreate | OpAnthropic | OpGenerate

datatype event = Returned op | Thrown op | Waited nat

definition log_call :: "op \<Rightarrow> ('a, 's) io \<Rightarrow> ('a, 's \<times> event list) io" where
  "log_call f m st =
     (case m (fst st) of
        (Inl e, s') \<Rightarrow> (Inl e, (s', snd st @ [Thrown f]))
      | (Inr a, s') \<Rightarrow> (Inr a, (s', snd st @ [Returned f])))"

definition logged :: "'s services \<Rightarrow> ('s \<times> event list) services" where
  "logged api =
     \<lparr> getProfile = log_call OpGetProfile (getProfile api),
       messages_list = (\<lambda>q n. log_call OpMessagesList (messages_list api q n)),
       messages_get = (\<lambda>i. log_call OpMessagesGet (messages_get api i)),
       messages_modify = (\<lambda>i add remove. log_call OpMessagesModify (messages_modify api i add remove)),
       labels_list = log_call OpLabelsList (labels_list api),
       labels_create = (\<lambda>n. log_call OpLabelsCreate (labels_create api n)),
       anthropic_create = (\<lambda>p. log_call OpAnthropic (anthropic_create api p)),
       generateContent = (\<lambda>p. log_call OpGenerate (generateContent api p)),
       setTimeout = (\<lambda>n st. (setTimeout api n (fst st), snd st @ [Waited n])) \<rparr>"

definition calls :: "op \<Rightarrow> event list \<Rightarrow> nat" where
  "calls f l = length (filter (\<lambda>e. e = Returned f \<or> e = Thrown f) l)"


text \<open>
  For stating what the bounded retry does in terms of the replies: the outcomes the backend
  gives to \<open>n\<close> calls made in turn, the timer running after each call that throws, as it does
  in the loop.
\<close>

fun replies_in_turn :: "'s services \<Rightarrow> prompt \<Rightarrow> nat \<Rightarrow> 's \<Rightarrow> (js_exn + generated) list" where
  "replies_in_turn api p 0 s = []"
| "replies_in_turn api p (Suc n) s =
     (case generateContent api p s of
        (Inl e, s1) \<Rightarrow> Inl e # replies_in_turn api p n (setTimeout api 1000 s1)
      | (Inr g, s1) \<Rightarrow> Inr g # replies_in_turn api p n s1)"

text \<open>
  The test of the loop on one outcome: the call returned and the trimmed reply is a
  non-empty member of the category list.
\<close>

definition reply_valid :: "runtime \<Rightarrow> string list \<Rightarrow> js_exn + generated \<Rightarrow> bool" where
  "reply_valid rt cats r =
     (case r of
        Inl e \<Rightarrow> False
      | Inr g \<Rightarrow> gemini_category rt g \<noteq> [] \<and> gemini_category rt g \<in> set cats)"


section \<open>A simulated provider\<close>

text \<open>
  A mail account and two scripted backends, for concrete runs. Messages and labels are
  lists in the order the provider lists them. A backend answers with the next entry of its
  script and throws once the script is used up.
\<close>

record sim_message =
  sm_id :: string
  sm_part :: message_part
  sm_labelIds :: "string list"

record sim_state =
  sim_email :: "string option"
  sim_labels :: "label list"
  sim_messages :: "sim_message list"
  sim_claude :: "(js_exn + completion) list"
  sim_gemini :: "(js_exn + generated) list"
  sim_fresh :: nat

fun contains :: "string \<Rightarrow> string \<Rightarrow> bool" where
  "contains w [] = (w = [])"
| "contains w (c # cs) = (starts_with w (c # cs) \<or> contains w cs)"

text \<open>
  Search: \<^verbatim>\<open>is:unread\<close> asks for the UNREAD mark, and \<^verbatim>\<open>-label:"n"\<close> rejects a message that
  carries the label named \<open>n\<close>.
\<close>

definition sim_matches :: "label list \<Rightarrow> string \<Rightarrow> sim_message \<Rightarrow> bool" where
  "sim_matches ls q m =
     ((if contains ''is:unread'' q then ''UNREAD'' \<in> set (sm_labelIds m) else True) \<and>
      list_all (\<lambda>l. \<not> (truthy (label_name l) \<and> truthy (label_id l) \<and>
                       or_default (label_id l) [] \<in> set (sm_labelIds m) \<and>
                       contains (''-label:'' @ [CHR 0x22] @ or_default (label_name l) [] @ [CHR 0x22]) q)) ls)"

function decimal :: "nat \<Rightarrow> string" where
  "decimal n = (if n < 10 then [char_of (48 + n)] else decimal (n div 10) @ [char_of (48 + n mod 10)])"
  by pat_completeness auto
termination
  by (relation "measure id") auto

definition sim_find :: "sim_state \<Rightarrow> message_ref \<Rightarrow> sim_message option" where
  "sim_find s i = (case i of None \<Rightarrow> None | Some x \<Rightarrow> find (\<lambda>m. sm_id m = x) (sim_messages s))"

definition not_found :: js_exn where
  "not_found = JsError ''Requested entity was not found.''"

definition sim_list :: "string \<Rightarrow> nat \<Rightarrow> (message_ref list option, sim_state) io" where
  "sim_list q n s =
     (let found = take n (filter (sim_matches (sim_labels s) q) (sim_messages s)) in
      (Inr (if found = [] then None else Some (map (\<lambda>m. Some (sm_id m)) found)), s))"

definition sim_get :: "message_ref \<Rightarrow> (message_part option, sim_state) io" where
  "sim_get i s =
     (case sim_find s i of
        None \<Rightarrow> (Inl not_found, s)
      | Some m \<Rightarrow> (Inr (Some (sm_part m)), s))"

definition sim_modify ::
  "message_ref \<Rightarrow> string option list \<Rightarrow> string list \<Rightarrow> (unit, sim_state) io" where
  "sim_modify i add remove s =
     (case sim_find s i of
        None \<Rightarrow> (Inl not_found, s)
      | Some m \<Rightarrow>
          if list_all (\<lambda>a. truthy a \<and> a \<in> set (map label_id (sim_labels s))) add then
            (Inr (),
             s\<lparr> sim_messages :=
                  map (\<lambda>x. if sm_id x = sm_id m then
                              x\<lparr> sm_labelIds :=
                                   filter (\<lambda>l. l \<notin> set remove) (sm_labelIds x)
                                   @ map (\<lambda>a. or_default a []) add \<rparr>
                            else x)
                    (sim_messages s) \<rparr>)
          else (Inl (JsError ''Invalid label''), s))"

definition sim_create :: "string \<Rightarrow> (string option, sim_state) io" where
  "sim_create n s =
     (if find (\<lambda>l. label_name l = Some n) (sim_labels s) \<noteq> None then
        (Inl (JsError ''Label name exists or conflicts''), s)
      else
        (let i = ''Label_'' @ decimal (sim_fresh s) in
         (Inr (Some i),
          s\<lparr> sim_labels := sim_labels s @ [\<lparr> label_name = Some n, label_id = Some i \<rparr>],
             sim_fresh := Suc (sim_fresh s) \<rparr>)))"

definition sim_anthropic :: "prompt \<Rightarrow> (completion, sim_state) io" where
  "sim_anthropic p s =
     (case sim_claude s of
        [] \<Rightarrow> (Inl (JsError ''Connection error.''), s)
      | r # rs \<Rightarrow> (r, s\<lparr> sim_claude := rs \<rparr>))"

definition sim_generate :: "prompt \<Rightarrow> (generated, sim_state) io" where
  "sim_generate p s =
     (case sim_gemini s of
        [] \<Rightarrow> (Inl (JsError ''Connection error.''), s)
      | r # rs \<Rightarrow> (r, s\<lparr> sim_gemini := rs \<rparr>))"

definition sim :: "sim_state services" where
  "sim =
     \<lparr> getProfile = (\<lambda>s. (Inr (sim_email s), s)),
       messages_list = sim_list,
       messages_get = sim_get,
       messages_modify = sim_modify,
       labels_list = (\<lambda>s. (Inr (Some (sim_labels s)), s)),
       labels_create = sim_create,
       anthropic_create = sim_anthropic,
       generateContent = sim_generate,
       setTimeout = (\<lambda>n s. s) \<rparr>"

section \<open>Example inputs\<close>

text \<open>Replies, messages and accounts for the concrete runs below.\<close>

definition text_completion :: "string \<Rightarrow> completion" where
  "text_completion t =
     \<lparr> completion_content = [\<lparr> block_type = ''text'', block_text = t \<rparr>],
       completion_usage = \<lparr> input_tokens = 412, output_tokens = 9 \<rparr> \<rparr>"

definition text_generated :: "string \<Rightarrow> generated" where
  "text_generated t =
     \<lparr> generated_text = Some t,
       generated_usage = Some \<lparr> totalTokenCount = Some 420 \<rparr> \<rparr>"

definition plain_message :: "string \<Rightarrow> string \<Rightarrow> string \<Rightarrow> sim_message" where
  "plain_message i subj d =
     \<lparr> sm_id = i,
       sm_part =
         \<lparr> headers = Some [\<lparr> header_name = Some ''From'', header_value = Some ''ann@example.org'' \<rparr>,
                            \<lparr> header_name = Some ''Subject'', header_value = Some subj \<rparr>],
           content = GmailPayload (Some ''text/plain'') (Some \<lparr> data = Some d \<rparr>) None \<rparr>,
       sm_labelIds = [''INBOX'', ''UNREAD''] \<rparr>"

definition account ::
  "sim_message list \<Rightarrow> label list \<Rightarrow> (js_exn + completion) list \<Rightarrow> (js_exn + generated) list
     \<Rightarrow> sim_state" where
  "account ms ls cl ge =
     \<lparr> sim_email = Some ''me@example.org'', sim_labels = ls, sim_messages = ms,
       sim_claude = cl, sim_gemini = ge, sim_fresh = 1 \<rparr>"

definition unread_messages :: "nat \<Rightarrow> sim_message list" where
  "unread_messages n = map (\<lambda>i. plain_message (''m'' @ decimal i) ''Hello'' ''aGk='') [0..<n]"

definition token_request :: "js_exn + request_body" where
  "token_request = Inr \<lparr> accessToken = Some ''ya29.token'', emailId = None \<rparr>"

section \<open>Properties of text extraction\<close>

lemma scan_plain_none: "\<forall>q \<in> set ps. \<not> is_plain_part q \<Longrightarrow> scan_plain rt ps = None"
  by (induction ps) auto

lemma scan_html_none: "\<forall>q \<in> set ps. \<not> is_html_part q \<Longrightarrow> scan_html rt ps = None"
  by (induction ps) auto

lemma scan_plain_first:
  "\<forall>q \<in> set pre. \<not> is_plain_part q \<Longrightarrow> is_plain_part part \<Longrightarrow>
   scan_plain rt (pre @ part # post) = Some (decode_plain rt part)"
  by (induction pre) auto

text \<open>
  Claim C6, as amended. When the parts of a payload contain a \<^verbatim>\<open>text/plain\<close> part whose
  body data is not empty, extraction returns the base64-decoded data of the first such part
  and nothing else is done to it: no HTML conversion, no collapsing of white space. Earlier
  \<^verbatim>\<open>text/plain\<close> parts without data are passed over, and \<^verbatim>\<open>text/html\<close> siblings do not matter.
\<close>

theorem extract_first_plain_with_data:
  assumes "parts p = Some (pre @ part # post)"
    and "\<forall>q \<in> set pre. \<not> (mimeType q = Some ''text/plain'' \<and> truthy (body_data q))"
    and "mimeType part = Some ''text/plain''"
    and "body_data part = Some d" and "d \<noteq> []"
  shows "extractEmailBody rt (Some p) = base64_utf8 rt d"
proof -
  have "is_plain_part part"
    using assms(3-5) by (simp add: is_plain_part_def truthy_def)
  moreover have "\<forall>q \<in> set pre. \<not> is_plain_part q"
    using assms(2) by (simp add: is_plain_part_def)
  ultimately have "scan_plain rt (pre @ part # post) = Some (decode_plain rt part)"
    by (simp add: scan_plain_first)
  moreover have "decode_plain rt part = base64_utf8 rt d"
    using assms(4,5) by (simp add: decode_plain_def or_default_def truthy_def)
  ultimately show ?thesis
    using assms(1) by (simp add: extractEmailBody_def)
qed

text \<open>An HTML part first, then the plain part: the plain part is returned.\<close>

theorem extract_first_plain_with_data_witness:
  "extractEmailBody ref_runtime
     (Some (GmailPayload (Some ''multipart/alternative'') None
        (Some [GmailPayload (Some ''text/html'') (Some \<lparr>data = Some ''PGI+aGk8L2I+''\<rparr>) None,
               GmailPayload (Some ''text/plain'') (Some \<lparr>data = Some ''aGk=''\<rparr>) None])))
   = ''hi''"
proof -
  let ?h = "GmailPayload (Some ''text/html'') (Some \<lparr>data = Some ''PGI+aGk8L2I+''\<rparr>) None"
  let ?t = "GmailPayload (Some ''text/plain'') (Some \<lparr>data = Some ''aGk=''\<rparr>) None"
  let ?p = "GmailPayload (Some ''multipart/alternative'') None (Some [?h, ?t])"
  have 1: "parts ?p = Some ([?h] @ ?t # [])" by simp
  have 2: "\<forall>q \<in> set [?h]. \<not> (mimeType q = Some ''text/plain'' \<and> truthy (body_data q))" by simp
  have 3: "mimeType ?t = Some ''text/plain''" by simp
  have 4: "body_data ?t = Some ''aGk=''" by (simp add: body_data_def)
  have 5: "''aGk='' \<noteq> []" by simp
  have 6: "base64_utf8 ref_runtime ''aGk='' = ''hi''" by code_simp
  show ?thesis
    using extract_first_plain_with_data [OF 1 2 3 4 5, of ref_runtime] 6 by simp
qed

text \<open>
  Claim C6 as stated fails: the first \<^verbatim>\<open>text/plain\<close> part has the empty data, whose decoding
  is the empty string, and extraction returns the content of the second one.
\<close>

theorem extract_skips_empty_plain_counterexample:
  "extractEmailBody ref_runtime
     (Some (GmailPayload (Some ''multipart/alternative'') None
        (Some [GmailPayload (Some ''text/plain'') (Some \<lparr>data = Some ''''\<rparr>) None,
               GmailPayload (Some ''text/plain'') (Some \<lparr>data = Some ''aGk=''\<rparr>) None])))
   = ''hi'' \<and> base64_utf8 ref_runtime '''' = ''''"
  by code_simp

text \<open>
  Claim C9. Extraction is a total function to strings, and its value is the empty string for
  an absent payload and for a payload in which neither a part nor the top-level body is
  \<^verbatim>\<open>text/plain\<close> or \<^verbatim>\<open>text/html\<close> with data.
\<close>

theorem extract_empty_when_nothing_matches:
  assumes "payload = None \<or>
     (\<exists>p. payload = Some p \<and>
        (\<forall>part \<in> set (case parts p of None \<Rightarrow> [] | Some ps \<Rightarrow> ps).
            \<not> is_plain_part part \<and> \<not> is_html_part part) \<and>
        \<not> (truthy (body_data p) \<and>
            (mimeType p = Some ''text/plain'' \<or> mimeType p = Some ''text/html'')))"
  shows "extractEmailBody rt payload = []"
proof (cases payload)
  case None
  then show ?thesis by (simp add: extractEmailBody_def)
next
  case (Some p)
  with assms have a: "\<forall>part \<in> set (case parts p of None \<Rightarrow> [] | Some ps \<Rightarrow> ps).
            \<not> is_plain_part part \<and> \<not> is_html_part part"
    and b: "\<not> (truthy (body_data p) \<and>
            (mimeType p = Some ''text/plain'' \<or> mimeType p = Some ''text/html''))"
    by auto
  from b have sp: "single_part rt p = []" by (auto simp: single_part_def)
  show ?thesis
  proof (cases "parts p")
    case None
    with Some sp show ?thesis by (simp add: extractEmailBody_def)
  next
    case (Some ps)
    with a have "scan_plain rt ps = None" "scan_html rt ps = None"
      by (simp_all add: scan_plain_none scan_html_none)
    with Some \<open>payload = Some p\<close> sp show ?thesis by (simp add: extractEmailBody_def)
  qed
qed

theorem extract_empty_when_nothing_matches_witness:
  "extractEmailBody ref_runtime None = [] \<and>
   extractEmailBody ref_runtime
     (Some (GmailPayload (Some ''multipart/mixed'') None
        (Some [GmailPayload (Some ''image/png'') (Some \<lparr>data = Some ''AAAA''\<rparr>) None,
               GmailPayload (Some ''text/plain'') None None]))) = []"
proof -
  let ?a = "GmailPayload (Some ''image/png'') (Some \<lparr>data = Some ''AAAA''\<rparr>) None"
  let ?b = "GmailPayload (Some ''text/plain'') None None"
  let ?p = "GmailPayload (Some ''multipart/mixed'') None (Some [?a, ?b])"
  have h: "Some ?p = None \<or>
     (\<exists>p. Some ?p = Some p \<and>
        (\<forall>part \<in> set (case parts p of None \<Rightarrow> [] | Some ps \<Rightarrow> ps).
            \<not> is_plain_part part \<and> \<not> is_html_part part) \<and>
        \<not> (truthy (body_data p) \<and>
            (mimeType p = Some ''text/plain'' \<or> mimeType p = Some ''text/html'')))"
    by (simp add: is_plain_part_def is_html_part_def body_data_def truthy_def)
  show ?thesis
    using extract_empty_when_nothing_matches [OF h, of ref_runtime]
      extract_empty_when_nothing_matches [of None ref_runtime] by simp
qed

section \<open>Properties of the auth-status endpoint\<close>

text \<open>
  Claim C10, as amended. When the \<^verbatim>\<open>access_token\<close> cookie is present and its value is not
  empty, the JSON reply carries the flag \<^verbatim>\<open>authenticated: true\<close> and the raw value of the
  cookie.
\<close>

theorem auth_check_returns_token:
  assumes "cs ''access_token'' = Some v" and "v \<noteq> []"
  shows "GET_check cs = \<lparr> authenticated = True, status_accessToken = Some v \<rparr>"
  using assms by (simp add: GET_check_def truthy_def)

theorem auth_check_returns_token_witness:
  "GET_check [''access_token'' \<mapsto> ''ya29.token''] =
     \<lparr> authenticated = True, status_accessToken = Some ''ya29.token'' \<rparr>"
  using auth_check_returns_token [of "[''access_token'' \<mapsto> ''ya29.token'']" "''ya29.token''"]
  by simp

text \<open>
  Claim C10 as stated fails for a cookie that is present with the empty value: the guard
  \<^verbatim>\<open>if (!accessToken)\<close> answers \<^verbatim>\<open>authenticated: false\<close> without a token.
\<close>

theorem auth_check_empty_cookie_counterexample:
  "GET_check [''access_token'' \<mapsto> ''''] = \<lparr> authenticated = False, status_accessToken = None \<rparr>"
  by (simp add: GET_check_def truthy_def)




section \<open>Properties of the classifier of the two-backend route\<close>

lemmas io_defs = bind_io_def catch_io_def return_io_def throw_io_def

lemma claude_tier_caught:
  "catch_io (claude_tier api rt cats p) (\<lambda>err. return_io None) s =
     (case anthropic_create api p s of
        (Inl e, s1) \<Rightarrow> (Inr None, s1)
      | (Inr c, s1) \<Rightarrow>
          (case claude_category rt c of
             Inl e \<Rightarrow> (Inr None, s1)
           | Inr v \<Rightarrow>
               (case valid_json_category cats v of
                  None \<Rightarrow> (Inr None, s1)
                | Some cat \<Rightarrow>
                    (Inr (Some \<lparr> cr_category = cat, cr_model = ''anthropic'',
                       cr_tokens = input_tokens (completion_usage c) + output_tokens (completion_usage c),
                       cr_cost = (real (input_tokens (completion_usage c)) * 0.8) / 1000000
                             + (real (output_tokens (completion_usage c)) * 4) / 1000000 \<rparr>), s1))))"
  by (simp add: claude_tier_def io_defs split: prod.splits sum.splits option.splits)

lemma gemini_tier_caught:
  "catch_io (gemini_tier api rt cats p) (\<lambda>err. return_io None) s =
     (case generateContent api p s of
        (Inl e, s1) \<Rightarrow> (Inr None, s1)
      | (Inr r, s1) \<Rightarrow>
          (if gemini_category rt r \<noteq> [] \<and> gemini_category rt r \<in> set cats then
             (Inr (Some \<lparr> cr_category = gemini_category rt r, cr_model = ''gemini'',
                cr_tokens = gemini_tokens r, cr_cost = real (gemini_tokens r) * 1.25 \<rparr>), s1)
           else (Inr None, s1)))"
  by (simp add: gemini_tier_def io_defs Let_def split: prod.splits sum.splits)

lemma classifyEmail_unfold:
  "classifyEmail api rt cats subj sender body_text s =
     (let p = build_prompt cats subj sender body_text in
      case catch_io (claude_tier api rt cats p) (\<lambda>err. return_io None) s of
        (Inl e, s1) \<Rightarrow> (Inl e, s1)
      | (Inr (Some res), s1) \<Rightarrow> (Inr res, s1)
      | (Inr None, s1) \<Rightarrow>
          (case catch_io (gemini_tier api rt cats p) (\<lambda>err. return_io None) s1 of
             (Inl e, s2) \<Rightarrow> (Inl e, s2)
           | (Inr (Some res), s2) \<Rightarrow> (Inr res, s2)
           | (Inr None, s2) \<Rightarrow> (Inr fallback, s2)))"
  by (simp add: classifyEmail_def Let_def bind_io_def return_io_def
      split: prod.splits sum.splits option.splits)

lemma claude_tier_state:
  "snd (catch_io (claude_tier api rt cats p) (\<lambda>err. return_io None) s) = snd (anthropic_create api p s)"
  by (simp add: claude_tier_caught split: prod.splits sum.splits option.splits)

text \<open>When neither tier gives a valid category the static default is returned.\<close>

lemma classifyEmail_both_tiers_fail:
  fixes api :: "'s services" and cats :: "string list" and subj sender body_text :: string
  defines "p \<equiv> build_prompt cats subj sender body_text"
  assumes "\<forall>c cat. fst (anthropic_create api p s) = Inr c \<longrightarrow>
              claude_category rt c = Inr (Some (JString cat)) \<longrightarrow> cat \<notin> set cats \<or> cat = []"
    and "\<forall>r. fst (generateContent api p (snd (anthropic_create api p s))) = Inr r \<longrightarrow>
              gemini_category rt r \<notin> set cats \<or> gemini_category rt r = []"
  shows "fst (classifyEmail api rt cats subj sender body_text s) =
           Inr \<lparr> cr_category = ''Other'', cr_model = ''fallback'', cr_tokens = 0, cr_cost = 0 \<rparr>"
proof -
  have t1: "fst (catch_io (claude_tier api rt cats p) (\<lambda>err. return_io None) s) = Inr None"
    using assms(2)
    by (auto simp: claude_tier_caught valid_json_category_def
        split: prod.splits sum.splits option.splits json.splits if_splits)
  have t2: "fst (catch_io (gemini_tier api rt cats p) (\<lambda>err. return_io None)
                   (snd (anthropic_create api p s))) = Inr None"
    using assms(3)
    by (auto simp: gemini_tier_caught split: prod.splits sum.splits)
  have e1: "catch_io (claude_tier api rt cats p) (\<lambda>err. return_io None) s =
              (Inr None, snd (anthropic_create api p s))"
    using t1 claude_tier_state [of api rt cats p s] by (simp add: prod_eq_iff)
  obtain s2 where e2: "catch_io (gemini_tier api rt cats p) (\<lambda>err. return_io None)
              (snd (anthropic_create api p s)) = (Inr None, s2)"
    using t2 by (metis prod.collapse)
  show ?thesis
    unfolding classifyEmail_unfold p_def [symmetric] Let_def
    by (simp add: e1 e2 fallback_def)
qed

text \<open>
  Claim C7, as amended. Let \<open>cat\<close> be a non-empty member of the category list. If the reply
  of the secondary backend parses as JSON to an object whose \<^verbatim>\<open>category\<close> field is the
  string \<open>cat\<close>, classifyEmail returns \<open>cat\<close> with the tag of that backend,
  \<^verbatim>\<open>anthropic\<close>. If the secondary backend gives no valid category and the trimmed reply of the
  primary backend is \<open>cat\<close>, classifyEmail returns \<open>cat\<close> with the tag \<^verbatim>\<open>gemini\<close>.
\<close>

theorem classify_valid_reply:
  fixes api :: "'s services" and cats :: "string list" and subj sender body_text :: string
  defines "p \<equiv> build_prompt cats subj sender body_text"
  assumes "cat \<noteq> []" and "cat \<in> set cats"
  shows "(\<forall>c. fst (anthropic_create api p s) = Inr c \<longrightarrow>
              claude_category rt c = Inr (Some (JString cat)) \<longrightarrow>
              (\<exists>res. fst (classifyEmail api rt cats subj sender body_text s) = Inr res \<and>
                     cr_category res = cat \<and> cr_model res = ''anthropic'')) \<and>
         ((\<forall>c. fst (anthropic_create api p s) = Inr c \<longrightarrow>
               (case claude_category rt c of
                  Inl err \<Rightarrow> True
                | Inr v \<Rightarrow> valid_json_category cats v = None)) \<longrightarrow>
          (\<forall>r. fst (generateContent api p (snd (anthropic_create api p s))) = Inr r \<longrightarrow>
               gemini_category rt r = cat \<longrightarrow>
               (\<exists>res. fst (classifyEmail api rt cats subj sender body_text s) = Inr res \<and>
                      cr_category res = cat \<and> cr_model res = ''gemini'')))"
proof (intro conjI allI impI)
  fix c
  assume a: "fst (anthropic_create api p s) = Inr c"
    and b: "claude_category rt c = Inr (Some (JString cat))"
  obtain s1 where "anthropic_create api p s = (Inr c, s1)"
    using a by (metis prod.collapse)
  then show "\<exists>res. fst (classifyEmail api rt cats subj sender body_text s) = Inr res \<and>
                     cr_category res = cat \<and> cr_model res = ''anthropic''"
    using b assms(2,3)
    unfolding classifyEmail_unfold p_def [symmetric] Let_def
    by (simp add: claude_tier_caught valid_json_category_def)
next
  fix r
  assume a: "\<forall>c. fst (anthropic_create api p s) = Inr c \<longrightarrow>
               (case claude_category rt c of
                  Inl err \<Rightarrow> True
                | Inr v \<Rightarrow> valid_json_category cats v = None)"
    and b: "fst (generateContent api p (snd (anthropic_create api p s))) = Inr r"
    and c: "gemini_category rt r = cat"
  have t1: "fst (catch_io (claude_tier api rt cats p) (\<lambda>err. return_io None) s) = Inr None"
    using a
    by (auto simp: claude_tier_caught split: prod.splits sum.splits option.splits)
  have e1: "catch_io (claude_tier api rt cats p) (\<lambda>err. return_io None) s =
              (Inr None, snd (anthropic_create api p s))"
    using t1 claude_tier_state [of api rt cats p s] by (simp add: prod_eq_iff)
  obtain s2 where e2: "generateContent api p (snd (anthropic_create api p s)) = (Inr r, s2)"
    using b by (metis prod.collapse)
  show "\<exists>res. fst (classifyEmail api rt cats subj sender body_text s) = Inr res \<and>
                      cr_category res = cat \<and> cr_model res = ''gemini''"
    using c assms(2,3)
    unfolding classifyEmail_unfold p_def [symmetric] Let_def
    by (simp add: e1 e2 gemini_tier_caught)
qed

theorem classify_valid_reply_witness:
  \<open>(\<exists>res. fst (classifyEmail sim ref_runtime validCategories ''Hello'' ''ann@example.org'' ''hi''
                 (account [] [] [Inr (text_completion ''{"category": "Work"}'')] [])) = Inr res \<and>
          cr_category res = ''Work'' \<and> cr_model res = ''anthropic'') \<and>
    (\<exists>res. fst (classifyEmail sim ref_runtime validCategories ''Hello'' ''ann@example.org'' ''hi''
                 (account [] [] [Inl (JsError ''overloaded'')] [Inr (text_generated '' Work '')])) = Inr res \<and>
          cr_category res = ''Work'' \<and> cr_model res = ''gemini'')\<close>
proof -
  let ?p = "build_prompt validCategories ''Hello'' ''ann@example.org'' ''hi''"
  let ?s1 = \<open>account [] [] [Inr (text_completion ''{"category": "Work"}'')] []\<close>
  let ?s2 = \<open>account [] [] [Inl (JsError ''overloaded'')] [Inr (text_generated '' Work '')]\<close>
  have w: "''Work'' \<noteq> []" "''Work'' \<in> set validCategories"
    by (simp_all add: validCategories_def)
  have a1: \<open>fst (anthropic_create sim ?p ?s1) = Inr (text_completion ''{"category": "Work"}'')\<close>
    by (simp add: sim_def sim_anthropic_def account_def)
  have c1: \<open>claude_category ref_runtime (text_completion ''{"category": "Work"}'')
            = Inr (Some (JString ''Work''))\<close>
    by code_simp
  have first: "\<exists>res. fst (classifyEmail sim ref_runtime validCategories ''Hello'' ''ann@example.org'' ''hi'' ?s1) = Inr res \<and>
          cr_category res = ''Work'' \<and> cr_model res = ''anthropic''"
    using classify_valid_reply [OF w, of sim "''Hello''" "''ann@example.org''" "''hi''" ?s1 ref_runtime]
      a1 c1 by blast
  have a2: "\<forall>c. fst (anthropic_create sim ?p ?s2) = Inr c \<longrightarrow>
               (case claude_category ref_runtime c of
                  Inl err \<Rightarrow> True
                | Inr v \<Rightarrow> valid_json_category validCategories v = None)"
    by (simp add: sim_def sim_anthropic_def account_def)
  have g2: "fst (generateContent sim ?p (snd (anthropic_create sim ?p ?s2))) = Inr (text_generated '' Work '')"
    by (simp add: sim_def sim_anthropic_def sim_generate_def account_def)
  have t2: "gemini_category ref_runtime (text_generated '' Work '') = ''Work''"
    by code_simp
  have second: "\<exists>res. fst (classifyEmail sim ref_runtime validCategories ''Hello'' ''ann@example.org'' ''hi'' ?s2) = Inr res \<and>
          cr_category res = ''Work'' \<and> cr_model res = ''gemini''"
    using classify_valid_reply [OF w, of sim "''Hello''" "''ann@example.org''" "''hi''" ?s2 ref_runtime]
      a2 g2 t2 by blast
  from first second show ?thesis by blast
qed

text \<open>
  Claim C7 as stated fails on the secondary tier: its reply is the text \<^verbatim>\<open>Work\<close>, a valid
  category, but that text is not JSON, the tier is left through its \<^verbatim>\<open>catch\<close>, and with the
  primary backend down the result is the static default.
\<close>

theorem classify_bare_name_from_claude_counterexample:
  "''Work'' \<in> set validCategories \<and>
   fst (classifyEmail sim ref_runtime validCategories ''Hello'' ''a@example.org'' ''hi''
          (account [] [] [Inr (text_completion ''Work'')] [])) =
     Inr \<lparr> cr_category = ''Other'', cr_model = ''fallback'', cr_tokens = 0, cr_cost = 0 \<rparr>"
  by code_simp


section \<open>Properties of the inbox processor of the two-backend route\<close>

text \<open>The classifier always returns, and what it returns has one of three shapes.\<close>

lemma valid_json_category_Some:
  "valid_json_category cats v = Some cat \<Longrightarrow> cat \<noteq> [] \<and> cat \<in> set cats"
  by (auto simp: valid_json_category_def split: option.splits json.splits if_splits)

lemma claude_tier_shape:
  "catch_io (claude_tier api rt cats p) (\<lambda>err. return_io None) s = (r, s1) \<Longrightarrow>
   r = Inr None \<or> (\<exists>res. r = Inr (Some res) \<and> cr_category res \<in> set cats \<and>
                          cr_model res = ''anthropic'')"
  by (auto simp: claude_tier_caught dest: valid_json_category_Some
      split: prod.splits sum.splits option.splits)

lemma gemini_tier_shape:
  "catch_io (gemini_tier api rt cats p) (\<lambda>err. return_io None) s = (r, s1) \<Longrightarrow>
   r = Inr None \<or> (\<exists>res. r = Inr (Some res) \<and> cr_category res \<in> set cats \<and>
                          cr_model res = ''gemini'')"
  by (auto simp: gemini_tier_caught split: prod.splits sum.splits if_splits)

lemma classifyEmail_shape:
  "\<exists>res. fst (classifyEmail api rt cats subj sender body_text s) = Inr res \<and>
         (res = fallback \<or>
          cr_category res \<in> set cats \<and> (cr_model res = ''anthropic'' \<or> cr_model res = ''gemini''))"
proof -
  let ?p = "build_prompt cats subj sender body_text"
  obtain r1 s1 where c1: "catch_io (claude_tier api rt cats ?p) (\<lambda>err. return_io None) s = (r1, s1)"
    by (cases "catch_io (claude_tier api rt cats ?p) (\<lambda>err. return_io None) s")
  obtain r2 s2 where c2: "catch_io (gemini_tier api rt cats ?p) (\<lambda>err. return_io None) s1 = (r2, s2)"
    by (cases "catch_io (gemini_tier api rt cats ?p) (\<lambda>err. return_io None) s1")
  from claude_tier_shape [OF c1] gemini_tier_shape [OF c2] show ?thesis
    unfolding classifyEmail_unfold Let_def
    by (auto simp: c1 c2)
qed

lemma processSingleEmail_unfold:
  "processSingleEmail gmail rt cats email s =
     (case processSingleEmail_try gmail rt cats email s of
        (Inl e, s') \<Rightarrow> (Inr (error_result email e), s')
      | (Inr d, s') \<Rightarrow> (Inr d, s'))"
  by (simp add: processSingleEmail_def catch_io_def return_io_def split: prod.splits sum.splits)

lemma bind_io_Inr:
  "bind_io m f s = (Inr b, s') \<Longrightarrow> \<exists>a s1. m s = (Inr a, s1) \<and> f a s1 = (Inr b, s')"
  by (auto simp: bind_io_def split: prod.splits sum.splits)

lemma processSingleEmail_try_shape:
  assumes "processSingleEmail_try gmail rt cats email s = (Inr d, s')"
  shows "\<exists>res. email_id d = email \<and> category d = cr_category res \<and> labeled d \<and>
               model d = Some (cr_model res) \<and> tokens d = Some (cr_tokens res) \<and>
               cost d = Some (cr_cost res) \<and> error d = None \<and>
               (res = fallback \<or>
                cr_category res \<in> set cats \<and>
                (cr_model res = ''anthropic'' \<or> cr_model res = ''gemini''))"
proof -
  from assms obtain details s1 subj sender body_text res s2 where
    cl: "classifyEmail gmail rt cats subj sender body_text s1 = (Inr res, s2)"
    and d: "d = \<lparr> email_id = email, subject = subj,
            category = cr_category res, labeled = True,
            model = Some (cr_model res),
            tokens = Some (cr_tokens res),
            cost = Some (cr_cost res), error = None \<rparr>"
    unfolding processSingleEmail_try_def Let_def
    by (fastforce dest!: bind_io_Inr simp: return_io_def)
  from classifyEmail_shape [of gmail rt cats subj sender body_text s1] cl
  have "res = fallback \<or>
          cr_category res \<in> set cats \<and> (cr_model res = ''anthropic'' \<or> cr_model res = ''gemini'')"
    by simp
  with d show ?thesis by auto
qed



lemma processSingleEmail_returns:
  "\<exists>d s'. processSingleEmail gmail rt cats email s = (Inr d, s')"
  by (cases "processSingleEmail_try gmail rt cats email s")
     (auto simp: processSingleEmail_unfold split: sum.splits)


lemma process_emails_step:
  assumes "processSingleEmail gmail rt cats email s = (Inr d, s1)"
  shows "process_emails gmail rt cats (email # rest) acc s =
           process_emails gmail rt cats rest (acc @ [d]) s1"
  using assms by (simp add: bind_io_def catch_io_def)

lemma process_emails_gen:
  "\<exists>rs. fst (process_emails gmail rt cats emails acc s) = Inr (acc @ rs) \<and>
        length rs = length emails \<and>
        (\<forall>i<length emails.
            fst (processSingleEmail gmail rt cats (emails ! i)
                  (foldl (\<lambda>st e. snd (processSingleEmail gmail rt cats e st)) s (take i emails)))
            = Inr (rs ! i))"
proof (induction emails arbitrary: acc s)
  case Nil
  then show ?case by (simp add: return_io_def)
next
  case (Cons email rest)
  obtain d s1 where st: "processSingleEmail gmail rt cats email s = (Inr d, s1)"
    using processSingleEmail_returns [of gmail rt cats email s] by auto
  from Cons.IH [of "acc @ [d]" s1] obtain rs where
    rs: "fst (process_emails gmail rt cats rest (acc @ [d]) s1) = Inr ((acc @ [d]) @ rs)"
      "length rs = length rest"
      "\<forall>i<length rest.
            fst (processSingleEmail gmail rt cats (rest ! i)
                  (foldl (\<lambda>st e. snd (processSingleEmail gmail rt cats e st)) s1 (take i rest)))
            = Inr (rs ! i)"
    by blast
  have "\<forall>i<length (email # rest).
            fst (processSingleEmail gmail rt cats ((email # rest) ! i)
                  (foldl (\<lambda>st e. snd (processSingleEmail gmail rt cats e st)) s (take i (email # rest))))
            = Inr ((d # rs) ! i)"
  proof (intro allI impI)
    fix i assume "i < length (email # rest)"
    then show "fst (processSingleEmail gmail rt cats ((email # rest) ! i)
                  (foldl (\<lambda>st e. snd (processSingleEmail gmail rt cats e st)) s (take i (email # rest))))
            = Inr ((d # rs) ! i)"
      using st rs(3) by (cases i) auto
  qed
  with rs(1,2) show ?case
    by (intro exI [of _ "d # rs"])
       (simp del: process_emails.simps add: process_emails_step [OF st])
qed



lemma processSingleEmail_result:
  assumes "''Other'' \<in> set cats"
    and "fst (processSingleEmail gmail rt cats email s) = Inr d"
  shows "(category d \<in> set cats \<or> category d = ''Error'') \<and>
         (labeled d = False \<longleftrightarrow> error d \<noteq> None) \<and>
         (model d \<noteq> None \<longleftrightarrow> labeled d) \<and>
         (tokens d \<noteq> None \<longleftrightarrow> labeled d) \<and>
         (cost d \<noteq> None \<longleftrightarrow> labeled d) \<and>
         (model d = Some ''fallback'' \<longrightarrow> tokens d = Some 0 \<and> cost d = Some 0)"
proof (cases "processSingleEmail_try gmail rt cats email s")
  case (Pair r s1)
  show ?thesis
  proof (cases r)
    case (Inl e)
    with Pair assms(2) have "d = error_result email e"
      by (simp add: processSingleEmail_unfold)
    then show ?thesis by (simp add: error_result_def)
  next
    case (Inr d')
    with Pair assms(2) have "processSingleEmail_try gmail rt cats email s = (Inr d, s1)"
      by (simp add: processSingleEmail_unfold)
    from processSingleEmail_try_shape [OF this] assms(1) show ?thesis
      by (auto simp: fallback_def)
  qed
qed

lemma process_emails_all:
  assumes "fst (process_emails gmail rt cats emails [] s) = Inr rs" and "d \<in> set rs"
  shows "\<exists>email st. fst (processSingleEmail gmail rt cats email st) = Inr d"
proof -
  from process_emails_gen [of gmail rt cats emails "[]" s] assms(1)
  have len: "length rs = length emails"
    and nth: "\<forall>i<length emails.
            fst (processSingleEmail gmail rt cats (emails ! i)
                  (foldl (\<lambda>st e. snd (processSingleEmail gmail rt cats e st)) s (take i emails)))
            = Inr (rs ! i)"
    by auto
  from assms(2) obtain i where "i < length rs" "rs ! i = d"
    by (auto simp: in_set_conv_nth)
  with len nth show ?thesis by metis
qed

lemma POST_results:
  assumes "fst (POST gmail rt cats n request s) = Inr (Results rs addr)" and "d \<in> set rs"
  shows "\<exists>email st. fst (processSingleEmail gmail rt cats email st) = Inr d"
proof -
  obtain r s' where p: "POST_try gmail rt cats n request s = (r, s')"
    by (cases "POST_try gmail rt cats n request s")
  with assms(1) have r: "r = Inr (Results rs addr)"
    by (cases r) (auto simp: POST_def catch_io_def return_io_def)
  from p r obtain req where req: "request = Inr req" "truthy (accessToken req)"
    by (cases request) (auto simp: POST_try_def throw_io_def return_io_def split: if_splits)
  from p r req obtain a s1 names s2 ms s3 where
    rest: "(if truthy (emailId req) then
                 (case find (\<lambda>email. email = emailId req) (case ms of None \<Rightarrow> [] | Some xs \<Rightarrow> xs) of
                    None \<Rightarrow> return_io (Failure ''Email not found or already processed'' 404)
                  | Some targetEmail \<Rightarrow>
                      bind_io (processSingleEmail gmail rt cats targetEmail) (\<lambda>result.
                        return_io (Results [result] (Some a))))
               else
                 bind_io (process_emails gmail rt cats (case ms of None \<Rightarrow> [] | Some xs \<Rightarrow> xs) []) (\<lambda>rs.
                   return_io (Results rs (Some a)))) s3 = (Inr (Results rs addr), s')"
    unfolding POST_try_def Let_def
    by (auto dest!: bind_io_Inr)
  show ?thesis
  proof (cases "truthy (emailId req)")
    case True
    with rest obtain targetEmail result s4 where
      "processSingleEmail gmail rt cats targetEmail s3 = (Inr result, s4)" "rs = [result]"
      by (auto simp: return_io_def dest!: bind_io_Inr split: option.splits)
    with assms(2) show ?thesis by (metis fst_conv empty_iff empty_set set_ConsD)
  next
    case False
    with rest obtain s4 where
      "process_emails gmail rt cats (case ms of None \<Rightarrow> [] | Some xs \<Rightarrow> xs) [] s3 = (Inr rs, s4)"
      by (auto simp: return_io_def dest!: bind_io_Inr)
    then have "fst (process_emails gmail rt cats (case ms of None \<Rightarrow> [] | Some xs \<Rightarrow> xs) [] s3) = Inr rs"
      by simp
    from process_emails_all [OF this assms(2)] show ?thesis .
  qed
qed

text \<open>
  Claim C5, as amended. Every result the two-backend route returns, for a category list that
  holds the default \<^verbatim>\<open>Other\<close>, has a category of the list or the literal \<^verbatim>\<open>Error\<close>; its
  success flag is false exactly when an error message is present; and its model, token and
  cost fields are present exactly when the flag is true. A result whose category came from
  the static fallback has them too, with 0 tokens and cost 0.
\<close>

theorem results_invariant:
  assumes "''Other'' \<in> set cats"
    and "fst (POST gmail rt cats n request s) = Inr (Results rs addr)"
    and "d \<in> set rs"
  shows "(category d \<in> set cats \<or> category d = ''Error'') \<and>
         (labeled d = False \<longleftrightarrow> error d \<noteq> None) \<and>
         (model d \<noteq> None \<longleftrightarrow> labeled d) \<and>
         (tokens d \<noteq> None \<longleftrightarrow> labeled d) \<and>
         (cost d \<noteq> None \<longleftrightarrow> labeled d) \<and>
         (model d = Some ''fallback'' \<longrightarrow> tokens d = Some 0 \<and> cost d = Some 0)"
proof -
  from POST_results [OF assms(2,3)] obtain email st where
    "fst (processSingleEmail gmail rt cats email st) = Inr d"
    by blast
  from processSingleEmail_result [OF assms(1) this] show ?thesis .
qed

theorem results_invariant_witness:
  "\<exists>d. fst (POST sim ref_runtime validCategories MAX_EMAILS token_request
              (account (unread_messages 1) [] [] [])) =
            Inr (Results [d] (Some ''me@example.org'')) \<and>
        category d \<in> set validCategories \<and> labeled d \<and> error d = None \<and>
        tokens d = Some 0 \<and> cost d = Some 0"
proof -
  let ?d = "\<lparr> email_id = Some ''m0'', subject = ''Hello'', category = ''Other'', labeled = True,
              model = Some ''fallback'', tokens = Some 0, cost = Some (0::real), error = None \<rparr>"
  have h1: "''Other'' \<in> set validCategories"
    by (simp add: validCategories_def)
  have h2: "fst (POST sim ref_runtime validCategories MAX_EMAILS token_request
              (account (unread_messages 1) [] [] [])) =
            Inr (Results [?d] (Some ''me@example.org''))"
    by code_simp
  have h3: "?d \<in> set [?d]" by simp
  from results_invariant [OF h1 h2 h3]
  have "(category ?d \<in> set validCategories \<or> category ?d = ''Error'') \<and>
        (labeled ?d = False \<longleftrightarrow> error ?d \<noteq> None) \<and>
        (model ?d \<noteq> None \<longleftrightarrow> labeled ?d) \<and>
        (tokens ?d \<noteq> None \<longleftrightarrow> labeled ?d) \<and>
        (cost ?d \<noteq> None \<longleftrightarrow> labeled ?d) \<and>
        (model ?d = Some ''fallback'' \<longrightarrow> tokens ?d = Some 0 \<and> cost ?d = Some 0)" .
  then have "category ?d \<in> set validCategories \<and> labeled ?d \<and> error ?d = None \<and>
        tokens ?d = Some 0 \<and> cost ?d = Some 0"
    by simp
  with h2 show ?thesis
    by (intro exI [of _ ?d]) (simp only: simp_thms)
qed

text \<open>
  Claim C5 as stated fails in its last part: with both backends down the category comes
  from the static fallback, and the result still carries token and cost fields.
\<close>

theorem fallback_result_has_usage_counterexample:
  "fst (processSingleEmail sim ref_runtime validCategories (Some ''m0'')
          (account (unread_messages 1) [] [] [])) =
     Inr \<lparr> email_id = Some ''m0'', subject = ''Hello'', category = ''Other'', labeled = True,
           model = Some ''fallback'', tokens = Some 0, cost = Some 0, error = None \<rparr>"
  by code_simp

section \<open>Properties of the label manager\<close>

lemma find_label_name:
  "find (\<lambda>l. label_name l = Some n) ls = Some l \<Longrightarrow> l \<in> set ls \<and> label_name l = Some n"
  by (induction ls) (auto split: if_splits)

lemma find_label_exists:
  "\<exists>l \<in> set ls. label_name l = Some n \<Longrightarrow> \<exists>l. find (\<lambda>l. label_name l = Some n) ls = Some l"
  by (induction ls) auto

lemma ensureLabelExists_found:
  assumes "labels_list gmail s = (Inr (Some ls), s1)"
    and "find (\<lambda>l. label_name l = Some n) ls = Some l"
    and "truthy (label_id l)"
  shows "ensureLabelExists gmail n s = (Inr (label_id l), s1)"
  using assms
  by (simp add: ensureLabelExists_def find_label_def io_defs)

lemma log_call_pair:
  "log_call f m (s, l) =
     (case m s of
        (Inl e, s') \<Rightarrow> (Inl e, (s', l @ [Thrown f]))
      | (Inr a, s') \<Rightarrow> (Inr a, (s', l @ [Returned f])))"
  by (simp add: log_call_def split: prod.splits sum.splits)

lemma logged_labels_list:
  "labels_list (logged api) (s, l) =
     (case labels_list api s of
        (Inl e, s') \<Rightarrow> (Inl e, (s', l @ [Thrown OpLabelsList]))
      | (Inr a, s') \<Rightarrow> (Inr a, (s', l @ [Returned OpLabelsList])))"
  by (simp add: logged_def log_call_pair)

text \<open>
  Claim C8. On an account that has a label with the given name (every label of the account
  having an identifier), ensureLabelExists returns the identifier of the first listed label
  with that name, the same identifier at a second call, and leaves the account as it was:
  both calls only list the labels and none creates one.
\<close>

theorem ensureLabel_idempotent:
  assumes "\<exists>l \<in> set (sim_labels s). label_name l = Some n"
    and "\<forall>l \<in> set (sim_labels s). truthy (label_id l)"
  shows "\<exists>l i. find (\<lambda>l. label_name l = Some n) (sim_labels s) = Some l \<and>
           label_id l = Some i \<and> i \<noteq> [] \<and>
           ensureLabelExists sim n s = (Inr (Some i), s) \<and>
           bind_io (ensureLabelExists sim n)
             (\<lambda>a. bind_io (ensureLabelExists sim n) (\<lambda>b. return_io (a, b))) s
             = (Inr (Some i, Some i), s) \<and>
           snd (bind_io (ensureLabelExists (logged sim) n)
                  (\<lambda>a. ensureLabelExists (logged sim) n) (s, []))
             = (s, [Returned OpLabelsList, Returned OpLabelsList])"
proof -
  from find_label_exists [OF assms(1)] obtain l where
    f: "find (\<lambda>l. label_name l = Some n) (sim_labels s) = Some l"
    by blast
  with assms(2) have t: "truthy (label_id l)"
    using find_label_name by blast
  then obtain i where i: "label_id l = Some i" "i \<noteq> []"
    by (auto simp: truthy_def split: option.splits)
  have ll: "labels_list sim s = (Inr (Some (sim_labels s)), s)"
    by (simp add: sim_def)
  have one: "ensureLabelExists sim n s = (Inr (Some i), s)"
    using ensureLabelExists_found [OF ll f t] i by simp
  have lg: "\<And>l0. labels_list (logged sim) (s, l0) =
                (Inr (Some (sim_labels s)), (s, l0 @ [Returned OpLabelsList]))"
    by (simp add: logged_labels_list ll)
  have two: "\<And>l0. ensureLabelExists (logged sim) n (s, l0) =
                (Inr (Some i), (s, l0 @ [Returned OpLabelsList]))"
    using ensureLabelExists_found [OF lg f t] i by simp
  show ?thesis
    using f i one two by (intro exI [of _ l] exI [of _ i]) (simp add: bind_io_def return_io_def)
qed

text \<open>
  An account with a system label and the label \<^verbatim>\<open>Work\<close>: the identifier returned is that of
  \<^verbatim>\<open>Work\<close>.
\<close>

theorem ensureLabel_idempotent_witness:
  "ensureLabelExists sim ''Work''
       (account [] [\<lparr> label_name = Some ''INBOX'', label_id = Some ''INBOX'' \<rparr>,
                    \<lparr> label_name = Some ''Work'', label_id = Some ''Label_7'' \<rparr>] [] [])
     = (Inr (Some ''Label_7''),
        account [] [\<lparr> label_name = Some ''INBOX'', label_id = Some ''INBOX'' \<rparr>,
                    \<lparr> label_name = Some ''Work'', label_id = Some ''Label_7'' \<rparr>] [] [])"
proof -
  let ?s = "account [] [\<lparr> label_name = Some ''INBOX'', label_id = Some ''INBOX'' \<rparr>,
                    \<lparr> label_name = Some ''Work'', label_id = Some ''Label_7'' \<rparr>] [] []"
  have h1: "\<exists>l \<in> set (sim_labels ?s). label_name l = Some ''Work''"
    by (simp add: account_def)
  have h2: "\<forall>l \<in> set (sim_labels ?s). truthy (label_id l)"
    by (simp add: account_def truthy_def)
  from ensureLabel_idempotent [OF h1 h2] obtain l i where
    f: "find (\<lambda>l. label_name l = Some ''Work'') (sim_labels ?s) = Some l"
    and li: "label_id l = Some i"
    and r: "ensureLabelExists sim ''Work'' ?s = (Inr (Some i), ?s)"
    by (elim exE conjE)
  have "find (\<lambda>l. label_name l = Some ''Work'') (sim_labels ?s)
          = Some \<lparr> label_name = Some ''Work'', label_id = Some ''Label_7'' \<rparr>"
    by (simp add: account_def)
  with f li have "i = ''Label_7''" by auto
  with r show ?thesis by (simp only:)
qed

section \<open>Properties of the single-backend route\<close>



lemma calls_simps [simp]:
  "calls f [] = 0"
  "calls f (Returned g # l) = (if f = g then Suc (calls f l) else calls f l)"
  "calls f (Thrown g # l) = (if f = g then Suc (calls f l) else calls f l)"
  "calls f (Waited n # l) = calls f l"
  "calls f (l @ l') = calls f l + calls f l'"
  by (auto simp: calls_def)










lemma classify_loop_plain:
  "retries + k = Suc maxRetries \<Longrightarrow> 0 < k \<Longrightarrow>
   fst (classify_loop api rt cats p retries s) =
     Inr (case find (reply_valid rt cats) (replies_in_turn api p k s) of
            Some (Inr g) \<Rightarrow> gemini_category rt g
          | _ \<Rightarrow> ''Personal'')"
proof (induction k arbitrary: retries s)
  case 0
  then show ?case by simp
next
  case (Suc k)
  then have le: "retries \<le> maxRetries" by simp
  obtain r s1 where g: "generateContent api p s = (r, s1)"
    by (cases "generateContent api p s")
  show ?case
  proof (cases r)
    case (Inr res)
    show ?thesis
    proof (cases "gemini_category rt res \<noteq> [] \<and> gemini_category rt res \<in> set cats")
      case True
      with le g Inr have
        "classify_loop api rt cats p retries s = (Inr (gemini_category rt res), s1)"
        by (subst classify_loop.simps) (simp add: Let_def)
      moreover have "reply_valid rt cats (Inr res)"
        using True by (simp add: reply_valid_def)
      ultimately show ?thesis using g Inr by (simp del: classify_loop.simps)
    next
      case False
      then have rv: "\<not> reply_valid rt cats (Inr res)"
        by (simp add: reply_valid_def)
      show ?thesis
      proof (cases "Suc retries > maxRetries")
        case True
        with le g Inr False have
          "classify_loop api rt cats p retries s = (Inr ''Personal'', s1)"
          by (subst classify_loop.simps) (auto simp: Let_def)
        moreover from True Suc.prems have "k = 0" by simp
        ultimately show ?thesis using g Inr rv by (simp del: classify_loop.simps)
      next
        case no: False
        with Suc.prems have k: "Suc retries + k = Suc maxRetries" "0 < k" by simp_all
        from le g Inr False no have
          "classify_loop api rt cats p retries s = classify_loop api rt cats p (Suc retries) s1"
          by (subst classify_loop.simps) (auto simp: Let_def)
        with Suc.IH [OF k, of s1] show ?thesis
          using g Inr rv by (simp del: classify_loop.simps)
      qed
    qed
  next
    case (Inl e)
    have rv: "\<not> reply_valid rt cats (Inl e)"
      by (simp add: reply_valid_def)
    show ?thesis
    proof (cases "Suc retries > maxRetries")
      case True
      with le g Inl have
        "classify_loop api rt cats p retries s = (Inr ''Personal'', s1)"
        by (subst classify_loop.simps) auto
      moreover from True Suc.prems have "k = 0" by simp
      ultimately show ?thesis using g Inl rv by (simp del: classify_loop.simps)
    next
      case no: False
      with Suc.prems have k: "Suc retries + k = Suc maxRetries" "0 < k" by simp_all
      from le g Inl no have
        "classify_loop api rt cats p retries s =
           classify_loop api rt cats p (Suc retries) (setTimeout api 1000 s1)"
        by (subst classify_loop.simps) auto
      with Suc.IH [OF k, of "setTimeout api 1000 s1"] show ?thesis
        using g Inl rv by (simp del: classify_loop.simps)
    qed
  qed
qed

lemma classifyEmail_single_all_invalid:
  assumes "\<forall>r \<in> set (replies_in_turn api (build_prompt cats subj sender body_text) (Suc maxRetries) s).
             \<not> reply_valid rt cats r"
  shows "fst (classifyEmail_single api rt cats subj sender body_text s) = Inr ''Personal''"
proof -
  have "find (reply_valid rt cats)
          (replies_in_turn api (build_prompt cats subj sender body_text) (Suc maxRetries) s) = None"
    using assms by (simp only: find_None_iff) blast
  moreover have "0 + Suc maxRetries = Suc maxRetries" "0 < Suc maxRetries" by simp_all
  note classify_loop_plain [OF this, of api rt cats "build_prompt cats subj sender body_text" s]
  ultimately show ?thesis by (simp add: classifyEmail_single_def del: replies_in_turn.simps)
qed

lemma process_single_try_fields:
  assumes "fst (process_single_try gmail rt cats email s) = Inr d"
  shows "model d = None \<and> tokens d = None \<and> cost d = None"
proof -
  from assms obtain s' where "process_single_try gmail rt cats email s = (Inr d, s')"
    by (metis prod.collapse)
  then show ?thesis
    unfolding process_single_try_def Let_def
    by (fastforce dest!: bind_io_Inr simp: return_io_def)
qed













text \<open>
  Claim C3. The single-backend route breaks it: it lists with \<^verbatim>\<open>maxResults: 2\<close>, so on an
  account with 25 unread messages, all matching the query, it lists and processes 2.
\<close>

theorem single_backend_route_lists_two:
  "length (filter (sim_matches [] ''is:unread'') (unread_messages 25)) = 25 \<and>
   fst (POST_single sim ref_runtime validCategories token_request
          (account (unread_messages 25) [] [] [])) =
     Inr (Results
       [\<lparr> email_id = Some ''m0'', subject = ''Hello'', category = ''Personal'', labeled = True,
          model = None, tokens = None, cost = None, error = None \<rparr>,
        \<lparr> email_id = Some ''m1'', subject = ''Hello'', category = ''Personal'', labeled = True,
          model = None, tokens = None, cost = None, error = None \<rparr>]
       None)"
  by code_simp

text \<open>
  The two-backend route passes its ceiling on; with the ceiling 10 of the spec the same
  account gives the first ten messages.
\<close>

lemma two_backend_route_lists_ten:
  "(case fst (POST sim ref_runtime validCategories MAX_EMAILS token_request
               (account (unread_messages 25) [] [] [])) of
      Inr (Results rs addr) \<Rightarrow>
        map email_id rs = map (\<lambda>i. Some (''m'' @ decimal i)) [0..<10]
    | _ \<Rightarrow> False)"
  by code_simp

section \<open>Properties of the static default of both classifiers\<close>

text \<open>
  Claim C1, as amended. In the two-backend route, when the secondary backend throws or the
  category field parsed from its reply is no valid category, and the primary backend throws
  or its reply, once trimmed, is outside the category list or empty, classifyEmail returns
  the category \<^verbatim>\<open>Other\<close> with backend tag \<^verbatim>\<open>fallback\<close>, 0 tokens and cost 0. In the
  single-backend route, when none of the replies to its three calls in turn is valid,
  classifyEmail returns the bare category \<^verbatim>\<open>Personal\<close>, and no result of that route carries a
  backend tag, a token count or a cost.
\<close>

theorem classify_falls_back:
  fixes api :: "'s services" and cats :: "string list" and subj sender body_text :: string
  defines "p \<equiv> build_prompt cats subj sender body_text"
  shows
    "((\<forall>c cat. fst (anthropic_create api p s) = Inr c \<longrightarrow>
          claude_category rt c = Inr (Some (JString cat)) \<longrightarrow> cat \<notin> set cats \<or> cat = []) \<and>
      (\<forall>r. fst (generateContent api p (snd (anthropic_create api p s))) = Inr r \<longrightarrow>
          gemini_category rt r \<notin> set cats \<or> gemini_category rt r = []) \<longrightarrow>
      fst (classifyEmail api rt cats subj sender body_text s) =
        Inr \<lparr> cr_category = ''Other'', cr_model = ''fallback'', cr_tokens = 0, cr_cost = 0 \<rparr>) \<and>
     ((\<forall>r \<in> set (replies_in_turn api p (Suc maxRetries) s). \<not> reply_valid rt cats r) \<longrightarrow>
      fst (classifyEmail_single api rt cats subj sender body_text s) = Inr ''Personal'') \<and>
     (\<forall>d. fst (process_single_try api rt cats email s) = Inr d \<longrightarrow>
          model d = None \<and> tokens d = None \<and> cost d = None)"
  unfolding p_def
  using classifyEmail_both_tiers_fail [of api cats subj sender body_text s rt]
    classifyEmail_single_all_invalid [of api cats subj sender body_text s rt]
    process_single_try_fields [of api rt cats email s]
  by blast

text \<open>
  A run of each route with every reply invalid: an unknown category and an empty reply in
  the two-backend route; an empty reply, a thrown call and an unknown category in the
  single-backend route.
\<close>

theorem classify_falls_back_witness:
  \<open>fst (classifyEmail sim ref_runtime validCategories ''Hello'' ''ann@example.org'' ''hi''
          (account [] [] [Inr (text_completion ''{"category": "Maybe"}'')]
             [Inr (text_generated '''')])) =
     Inr \<lparr> cr_category = ''Other'', cr_model = ''fallback'', cr_tokens = 0, cr_cost = 0 \<rparr> \<and>
   fst (classifyEmail_single sim ref_runtime validCategories ''Hello'' ''ann@example.org'' ''hi''
          (account [] [] [] [Inr (text_generated ''''), Inl (JsError ''503''),
                             Inr (text_generated ''Invoice'')])) = Inr ''Personal''\<close>
proof -
  let ?s = \<open>account [] [] [Inr (text_completion ''{"category": "Maybe"}'')]
             [Inr (text_generated '''')]\<close>
  let ?t = "account [] [] [] [Inr (text_generated ''''), Inl (JsError ''503''),
                             Inr (text_generated ''Invoice'')]"
  let ?p = "build_prompt validCategories ''Hello'' ''ann@example.org'' ''hi''"
  have c: \<open>claude_category ref_runtime (text_completion ''{"category": "Maybe"}'')
            = Inr (Some (JString ''Maybe''))\<close>
    by code_simp
  have a: \<open>fst (anthropic_create sim ?p ?s) = Inr (text_completion ''{"category": "Maybe"}'')\<close>
    by (simp add: sim_def sim_anthropic_def account_def)
  have m: "''Maybe'' \<notin> set validCategories" by (simp add: validCategories_def)
  have h1: "\<forall>c cat. fst (anthropic_create sim ?p ?s) = Inr c \<longrightarrow>
              claude_category ref_runtime c = Inr (Some (JString cat)) \<longrightarrow>
              cat \<notin> set validCategories \<or> cat = []"
    using a c m by auto
  have g: "fst (generateContent sim ?p (snd (anthropic_create sim ?p ?s))) = Inr (text_generated '''')"
    by (simp add: sim_def sim_anthropic_def sim_generate_def account_def)
  have e: "gemini_category ref_runtime (text_generated '''') = []"
    by code_simp
  have h2: "\<forall>r. fst (generateContent sim ?p (snd (anthropic_create sim ?p ?s))) = Inr r \<longrightarrow>
              gemini_category ref_runtime r \<notin> set validCategories \<or> gemini_category ref_runtime r = []"
    using g e by auto
  have h3: "\<forall>r \<in> set (replies_in_turn sim ?p (Suc maxRetries) ?t).
              \<not> reply_valid ref_runtime validCategories r"
    by code_simp
  have two: "fst (classifyEmail sim ref_runtime validCategories ''Hello'' ''ann@example.org'' ''hi'' ?s) =
     Inr \<lparr> cr_category = ''Other'', cr_model = ''fallback'', cr_tokens = 0, cr_cost = 0 \<rparr>"
    by (rule mp [OF conjunct1 [OF classify_falls_back [where api = sim and rt = ref_runtime]]])
       (intro conjI h1 h2)
  have one: "fst (classifyEmail_single sim ref_runtime validCategories ''Hello'' ''ann@example.org'' ''hi'' ?t)
      = Inr ''Personal''"
    by (rule mp [OF conjunct1 [OF conjunct2
         [OF classify_falls_back [where api = sim and rt = ref_runtime]]]])
       (rule h3)
  from two one show ?thesis by (intro conjI)
qed

text \<open>
  Claim C1 as stated fails. The classifier of the single-backend route, all replies
  invalid, returns the string \<^verbatim>\<open>Personal\<close> alone, and the result built from it has no tag,
  tokens or cost. And in the two-backend route the reply \<^verbatim>\<open>" Work "\<close>, which is not in the
  category list, is trimmed and accepted.
\<close>

theorem classifier_default_counterexample:
  "fst (classifyEmail_single sim ref_runtime validCategories ''Hello'' ''ann@example.org'' ''hi''
          (account [] [] [] [Inr (text_generated ''''), Inr (text_generated ''Invoice''),
                             Inr (text_generated '''')])) = Inr ''Personal'' \<and>
   fst (process_single_try sim ref_runtime validCategories (Some ''m0'')
          (account (unread_messages 1) [] [] [Inr (text_generated ''''), Inr (text_generated ''Invoice''),
                             Inr (text_generated '''')])) =
     Inr \<lparr> email_id = Some ''m0'', subject = ''Hello'', category = ''Personal'', labeled = True,
           model = None, tokens = None, cost = None, error = None \<rparr> \<and>
   '' Work '' \<notin> set validCategories \<and>
   fst (classifyEmail sim ref_runtime validCategories ''Hello'' ''ann@example.org'' ''hi''
          (account [] [] [] [Inr (text_generated '' Work '')])) =
     Inr \<lparr> cr_category = ''Work'', cr_model = ''gemini'', cr_tokens = 420, cr_cost = 525 \<rparr>"
  by code_simp

end
